theory Spec2Isabelle
  imports Complex_Main
begin

section \<open>Python primitives used by the program\<close>

text \<open>
  Python floats are modelled as the real numbers they approximate: every arithmetic
  operation, \<open>math.sin\<close>, \<open>math.cos\<close>, \<open>math.acos\<close> and the float remainder are exact
  here. Rounding is outside this model: a result that the program reaches only through
  rounding (a cosine slightly above 1 before a clamp, a remainder that rounds up to the
  modulus) does not occur here. Exceptions are values: a function that can raise returns
  \<open>error + 'a\<close>, with \<open>Inl\<close> for the exception.
\<close>

datatype error = IndexError | ValueError

text \<open>\<open>math.radians\<close>, \<open>math.degrees\<close> (and \<open>numpy.radians\<close>).\<close>

definition radians :: "real \<Rightarrow> real" where
  "radians x = x * pi / 180"

definition degrees :: "real \<Rightarrow> real" where
  "degrees x = x * 180 / pi"

text \<open>\<open>math.acos\<close> raises \<open>ValueError\<close> (math domain error) outside \<open>[-1, 1]\<close>.\<close>

definition py_acos :: "real \<Rightarrow> error + real" where
  "py_acos x = (if -1 \<le> x \<and> x \<le> 1 then Inr (arccos x) else Inl ValueError)"

text \<open>
  The float remainder \<open>x % m\<close>, computed exactly: the result has the sign of \<open>m\<close> and, for
  positive \<open>m\<close>, lies in \<open>[0, m)\<close>. (In floating point \<open>x % m\<close> can round to \<open>m\<close> itself when
  \<open>x\<close> is negative and tiny.)
\<close>

definition py_fmod :: "real \<Rightarrow> real \<Rightarrow> real" where
  "py_fmod x m = x - m * of_int \<lfloor>x / m\<rfloor>"

text \<open>\<open>xs[i] if i < len(xs) else xs[-1]\<close>; \<open>xs[-1]\<close> raises \<open>IndexError\<close> on the empty list.\<close>

definition py_last :: "'a list \<Rightarrow> error + 'a" where
  "py_last xs = (if xs = [] then Inl IndexError else Inr (last xs))"

subsection \<open>\<open>datetime\<close>\<close>

record datetime =
  year :: int
  month :: nat
  day :: nat
  hour :: nat
  minute :: nat
  second :: nat
  microsecond :: nat

definition is_leap :: "int \<Rightarrow> bool" where
  "is_leap y = (y mod 4 = 0 \<and> (y mod 100 \<noteq> 0 \<or> y mod 400 = 0))"

definition days_in_month :: "int \<Rightarrow> nat \<Rightarrow> nat" where
  "days_in_month y m =
     (if m = 2 then (if is_leap y then 29 else 28)
      else if m = 4 \<or> m = 6 \<or> m = 9 \<or> m = 11 then 30 else 31)"

definition days_before_month :: "int \<Rightarrow> nat \<Rightarrow> nat" where
  "days_before_month y m = sum_list (map (days_in_month y) [1..<m])"

definition days_before_year :: "int \<Rightarrow> int" where
  "days_before_year y = (y - 1) * 365 + (y - 1) div 4 - (y - 1) div 100 + (y - 1) div 400"

definition toordinal :: "datetime \<Rightarrow> int" where
  "toordinal dt = days_before_year (year dt) + int (days_before_month (year dt) (month dt)) + int (day dt)"

text \<open>\<open>dt.timetuple().tm_yday\<close>\<close>

definition tm_yday :: "datetime \<Rightarrow> int" where
  "tm_yday dt = int (days_before_month (year dt) (month dt)) + int (day dt)"

text \<open>\<open>(a - b).total_seconds()\<close>\<close>

definition total_seconds_between :: "datetime \<Rightarrow> datetime \<Rightarrow> real" where
  "total_seconds_between a b =
     of_int ((toordinal a - toordinal b) * 86400
             + (int (hour a) * 3600 + int (minute a) * 60 + int (second a))
             - (int (hour b) * 3600 + int (minute b) * 60 + int (second b)))
     + (of_int (int (microsecond a) - int (microsecond b))) / 1000000"

text \<open>
  \<open>datetime(y, m, d, 0, 0, 0) + timedelta(minutes=k)\<close> for \<open>k < 24 * 60\<close>, the only use the
  simulator makes of the addition: the date does not change.
\<close>

definition start_of_day :: "datetime \<Rightarrow> datetime" where
  "start_of_day date_obj =
     \<lparr>year = year date_obj, month = month date_obj, day = day date_obj,
      hour = 0, minute = 0, second = 0, microsecond = 0\<rparr>"

definition plus_minutes :: "datetime \<Rightarrow> nat \<Rightarrow> datetime" where
  "plus_minutes start k = start\<lparr>hour := k div 60, minute := k mod 60\<rparr>"

section \<open>Solar position model (core/solar\_model.py)\<close>

definition equation_of_time :: "int \<Rightarrow> real" where
  "equation_of_time n =
     (let B = radians ((of_int n - 1) * 360 / 365)
      in 229.18 * (0.000075 + 0.001868 * cos B - 0.032077 * sin B
                   - 0.014615 * cos (2 * B) - 0.040849 * sin (2 * B)))"

definition get_day_of_year :: "datetime \<Rightarrow> int" where
  "get_day_of_year dt = tm_yday dt"

definition solar_declination :: "int \<Rightarrow> real" where
  "solar_declination n =
     (let angle_rad = radians ((360 / 365) * (284 + of_int n))
      in 23.45 * sin angle_rad)"

definition standard_meridian :: "real \<Rightarrow> real" where
  "standard_meridian utc_offset_hours = utc_offset_hours * 15"

definition solar_time_correction :: "real \<Rightarrow> real \<Rightarrow> int \<Rightarrow> real" where
  "solar_time_correction lon utc_offset_hours n =
     (let lambda_std = standard_meridian utc_offset_hours;
          eot = equation_of_time n
      in 4 * (lon - lambda_std) + eot)"

definition calculate_solar_time :: "datetime \<Rightarrow> real \<Rightarrow> real \<Rightarrow> real" where
  "calculate_solar_time dt_local lon utc_offset_hours =
     (let n = get_day_of_year dt_local;
          tc_minutes = solar_time_correction lon utc_offset_hours n;
          local_time_hours = real (hour dt_local) + real (minute dt_local) / 60
                             + real (second dt_local) / 3600;
          solar_time_hours = local_time_hours + tc_minutes / 60
      in py_fmod solar_time_hours 24)"

definition hour_angle :: "real \<Rightarrow> real" where
  "hour_angle solar_time_hours = 15 * (solar_time_hours - 12)"

definition zenith_and_azimuth :: "real \<Rightarrow> real \<Rightarrow> real \<Rightarrow> error + (real \<times> real)" where
  "zenith_and_azimuth lat declination hour_angle_deg =
     (let lat_rad = radians lat;
          dec_rad = radians declination;
          h_rad = radians hour_angle_deg;
          cos_theta_z = sin lat_rad * sin dec_rad + cos lat_rad * cos dec_rad * cos h_rad;
          cos_theta_z = max (-1) (min 1 cos_theta_z)
      in case py_acos cos_theta_z of
           Inl e \<Rightarrow> Inl e
         | Inr zenith_rad \<Rightarrow>
             (let zenith_deg = degrees zenith_rad;
                  sin_theta_z = sin zenith_rad
              in if sin_theta_z > 0.001 then
                   (let cos_gamma = (sin dec_rad * cos lat_rad
                                     - cos dec_rad * sin lat_rad * cos h_rad) / sin_theta_z;
                        cos_gamma = max (-1) (min 1 cos_gamma)
                    in case py_acos cos_gamma of
                         Inl e \<Rightarrow> Inl e
                       | Inr azimuth_rad \<Rightarrow>
                           (let azimuth_deg = degrees azimuth_rad
                            in Inr (zenith_deg,
                                    if hour_angle_deg > 0 then 360 - azimuth_deg
                                    else azimuth_deg)))
                 else Inr (zenith_deg, 0)))"

text \<open>The dictionary returned by \<open>get_target_angles\<close>.\<close>

record target_angles =
  opt_tilt :: real
  opt_azimuth :: real
  opt_zenith :: real
  opt_declination :: real
  opt_solar_time :: real
  opt_hour_angle :: real

definition get_target_angles :: "datetime \<Rightarrow> real \<Rightarrow> real \<Rightarrow> real \<Rightarrow> error + target_angles" where
  "get_target_angles dt_local lat lon utc_offset_hours =
     (let n = get_day_of_year dt_local;
          declination = solar_declination n;
          solar_time = calculate_solar_time dt_local lon utc_offset_hours;
          h_deg = hour_angle solar_time
      in case zenith_and_azimuth lat declination h_deg of
           Inl e \<Rightarrow> Inl e
         | Inr (zenith, azimuth) \<Rightarrow>
             Inr \<lparr>opt_tilt = zenith, opt_azimuth = azimuth, opt_zenith = zenith,
                  opt_declination = declination, opt_solar_time = solar_time,
                  opt_hour_angle = h_deg\<rparr>)"

text \<open>
  The value of \<open>cos_theta_z\<close> in \<open>zenith_and_azimuth\<close>, before clamping, for the call that
  \<open>get_target_angles\<close> makes at a timestamp and place.
\<close>

definition cos_theta_z_at :: "datetime \<Rightarrow> real \<Rightarrow> real \<Rightarrow> real \<Rightarrow> real" where
  "cos_theta_z_at dt_local lat lon utc_offset_hours =
     (let lat_rad = radians lat;
          dec_rad = radians (solar_declination (get_day_of_year dt_local));
          h_rad = radians (hour_angle (calculate_solar_time dt_local lon utc_offset_hours))
      in sin lat_rad * sin dec_rad + cos lat_rad * cos dec_rad * cos h_rad)"

text \<open>
  The numerator of \<open>cos_gamma\<close> in \<open>zenith_and_azimuth\<close>, for the same call.
\<close>

definition cos_gamma_numerator_at :: "datetime \<Rightarrow> real \<Rightarrow> real \<Rightarrow> real \<Rightarrow> real" where
  "cos_gamma_numerator_at dt_local lat lon utc_offset_hours =
     (let lat_rad = radians lat;
          dec_rad = radians (solar_declination (get_day_of_year dt_local));
          h_rad = radians (hour_angle (calculate_solar_time dt_local lon utc_offset_hours))
      in sin dec_rad * cos lat_rad - cos dec_rad * sin lat_rad * cos h_rad)"

section \<open>Tracker state machine (core/tracking\_logic.py)\<close>

record tracker =
  latitude :: real
  longitude :: real
  utc_offset :: real
  current_tilt :: real
  current_azimuth :: real
  last_update_time :: "datetime option"
  is_winter_mode_active :: bool

text \<open>\<open>DualAxisTracker.__init__\<close>\<close>

definition new_tracker :: "real \<Rightarrow> real \<Rightarrow> real \<Rightarrow> tracker" where
  "new_tracker lat lon utc_offset_hours =
     \<lparr>latitude = lat, longitude = lon, utc_offset = utc_offset_hours,
      current_tilt = 0, current_azimuth = 0, last_update_time = None,
      is_winter_mode_active = False\<rparr>"

datatype action = Skip | Track | Winter_optimized | Stow

text \<open>
  The dictionary returned by \<open>update\<close>; the skip result has a \<open>reason\<close> and no \<open>zenith\<close> or
  \<open>solar_time\<close> key, the other results the reverse.
\<close>

record command =
  cmd_action :: action
  cmd_reason :: "string option"
  cmd_tilt :: real
  cmd_azimuth :: real
  cmd_winter_mode :: bool
  cmd_zenith :: "real option"
  cmd_solar_time :: "real option"

text \<open>
  \<open>DualAxisTracker.update\<close>: the tracker object is passed in and returned with the
  mutations the call made.
\<close>

definition update :: "tracker \<Rightarrow> datetime \<Rightarrow> real \<Rightarrow> bool \<Rightarrow> int \<Rightarrow> error + (command \<times> tracker)" where
  "update self dt_local temperature_c snow_detected min_update_interval_minutes =
     (let self = self\<lparr>is_winter_mode_active := (temperature_c < 2.0 \<and> snow_detected)\<rparr>;
          update_interval = (if is_winter_mode_active self then 60
                             else min_update_interval_minutes)
      in if (case last_update_time self of
               None \<Rightarrow> False
             | Some t \<Rightarrow> total_seconds_between dt_local t / 60 < of_int update_interval)
         then Inr (\<lparr>cmd_action = Skip, cmd_reason = Some ''Update interval not reached'',
                    cmd_tilt = current_tilt self, cmd_azimuth = current_azimuth self,
                    cmd_winter_mode = is_winter_mode_active self,
                    cmd_zenith = None, cmd_solar_time = None\<rparr>, self)
         else
           (case get_target_angles dt_local (latitude self) (longitude self) (utc_offset self) of
              Inl e \<Rightarrow> Inl e
            | Inr optimal \<Rightarrow>
                (let target_tilt = opt_tilt optimal;
                     target_azimuth = opt_azimuth optimal;
                     (target_tilt, target_azimuth, act) =
                        (if is_winter_mode_active self
                         then (max target_tilt 65.0, current_azimuth self, Winter_optimized)
                         else (target_tilt, target_azimuth, Track));
                     (target_tilt, target_azimuth, act) =
                        (if opt_zenith optimal > 90.0
                         then (if is_winter_mode_active self then 65.0 else 0.0, 180.0, Stow)
                         else (target_tilt, target_azimuth, act));
                     target_tilt = max 0.0 (min 90.0 target_tilt);
                     target_azimuth = py_fmod target_azimuth 360.0;
                     self = self\<lparr>current_tilt := target_tilt,
                                  current_azimuth := target_azimuth,
                                  last_update_time := Some dt_local\<rparr>
                 in Inr (\<lparr>cmd_action = act, cmd_reason = None,
                           cmd_tilt = current_tilt self, cmd_azimuth = current_azimuth self,
                           cmd_winter_mode = is_winter_mode_active self,
                           cmd_zenith = Some (opt_zenith optimal),
                           cmd_solar_time = Some (opt_solar_time optimal)\<rparr>, self))))"

section \<open>Predictive movement controller (core/ai\_predictive.py)\<close>

text \<open>
  \<open>IrradiancePredictor.predict\<close> is a trained random forest; the controller only calls it,
  so it is a field of the controller: any function of hour, temperature, cloud cover and
  zenith.
\<close>

record predictive_controller =
  predictor :: "real \<Rightarrow> real \<Rightarrow> real \<Rightarrow> real \<Rightarrow> real"
  motor_energy_cost :: real

text \<open>\<open>PredictiveController.__init__\<close>, with its default \<open>motor_energy_cost_wh = 2.5\<close>.\<close>

definition new_controller :: "(real \<Rightarrow> real \<Rightarrow> real \<Rightarrow> real \<Rightarrow> real) \<Rightarrow> real \<Rightarrow> predictive_controller" where
  "new_controller p motor_energy_cost_wh = \<lparr>predictor = p, motor_energy_cost = motor_energy_cost_wh\<rparr>"

definition default_motor_energy_cost_wh :: real where
  "default_motor_energy_cost_wh = 2.5"

text \<open>
  The decision dictionary; its \<open>reason\<close> entry is a formatted message that no caller reads
  and is left out.
\<close>

record move_decision =
  move_approved :: bool
  predicted_irradiance :: real
  final_tilt :: real
  final_azimuth :: real

text \<open>The local values of \<open>optimize_movement\<close> up to the energy gain.\<close>

definition predicted_irradiance_of :: "predictive_controller \<Rightarrow> datetime \<Rightarrow> real \<Rightarrow> real \<Rightarrow> real \<Rightarrow> real" where
  "predicted_irradiance_of self dt_local temp cloud_cover zenith =
     (let hour_frac = real (hour dt_local) + real (minute dt_local) / 60
      in predictor self hour_frac temp cloud_cover zenith)"

definition expected_energy_moving_wh :: "real \<Rightarrow> real \<Rightarrow> real \<Rightarrow> real" where
  "expected_energy_moving_wh irradiance area efficiency =
     (let expected_power_moving = irradiance * area * efficiency;
          time_delta_h = 10.0 / 60.0
      in expected_power_moving * time_delta_h)"

definition expected_energy_staying_wh :: "real \<Rightarrow> real \<Rightarrow> real \<Rightarrow> real \<Rightarrow> real \<Rightarrow> real \<Rightarrow> real \<Rightarrow> real" where
  "expected_energy_staying_wh irradiance cur_tilt target_tilt cur_azimuth target_azimuth area efficiency =
     (let tilt_diff_rad = radians (target_tilt - cur_tilt);
          az_diff_rad = radians (target_azimuth - cur_azimuth);
          incidence_cos = max 0.0 (cos tilt_diff_rad * cos az_diff_rad);
          expected_power_staying = irradiance * area * efficiency * incidence_cos;
          time_delta_h = 10.0 / 60.0
      in expected_power_staying * time_delta_h)"

definition energy_gain :: "predictive_controller \<Rightarrow> real \<Rightarrow> real \<Rightarrow> real \<Rightarrow> real \<Rightarrow> datetime \<Rightarrow> real \<Rightarrow> real \<Rightarrow> real \<Rightarrow> real \<Rightarrow> real \<Rightarrow> real" where
  "energy_gain self cur_tilt target_tilt cur_azimuth target_azimuth dt_local temp cloud_cover
       zenith area efficiency =
     (let irradiance = predicted_irradiance_of self dt_local temp cloud_cover zenith
      in expected_energy_moving_wh irradiance area efficiency
         - expected_energy_staying_wh irradiance cur_tilt target_tilt cur_azimuth
             target_azimuth area efficiency)"

definition optimize_movement :: "predictive_controller \<Rightarrow> real \<Rightarrow> real \<Rightarrow> real \<Rightarrow> real \<Rightarrow> datetime \<Rightarrow> real \<Rightarrow> real \<Rightarrow> real \<Rightarrow> real \<Rightarrow> real \<Rightarrow> move_decision" where
  "optimize_movement self cur_tilt target_tilt cur_azimuth target_azimuth dt_local temp
       cloud_cover zenith area efficiency =
     (let irradiance = predicted_irradiance_of self dt_local temp cloud_cover zenith;
          gain = energy_gain self cur_tilt target_tilt cur_azimuth target_azimuth dt_local
                   temp cloud_cover zenith area efficiency
      in if gain \<le> motor_energy_cost self
         then \<lparr>move_approved = False, predicted_irradiance = irradiance,
               final_tilt = cur_tilt, final_azimuth = cur_azimuth\<rparr>
         else \<lparr>move_approved = True, predicted_irradiance = irradiance,
               final_tilt = target_tilt, final_azimuth = target_azimuth\<rparr>)"

text \<open>The defaults of the keyword parameters \<open>area\<close> and \<open>efficiency\<close>.\<close>

definition default_area :: real where
  "default_area = 2.0"

definition default_efficiency :: real where
  "default_efficiency = 0.2"

section \<open>Day simulator (simulator.py)\<close>

text \<open>One row of the data frame that \<open>simulate_day\<close> returns.\<close>

record sim_record =
  Time :: datetime
  Hour :: real
  Zenith :: real
  Opt_Tilt :: real
  Opt_Azimuth :: real
  Dual_Tilt :: real
  Dual_Azimuth :: real
  Is_Winter :: bool
  Temp_C :: real
  Irradiance_W_m2 :: real
  Power_Dual :: real
  Power_Single :: real
  Power_Fixed :: real

text \<open>The body of the loop of \<open>simulate_day\<close>, for one value of \<open>minutes\<close>.\<close>

definition simulate_tick :: "datetime \<Rightarrow> real \<Rightarrow> real \<Rightarrow> real \<Rightarrow> real list \<Rightarrow> bool \<Rightarrow> real \<Rightarrow> real \<Rightarrow> tracker \<Rightarrow> nat \<Rightarrow> error + (sim_record \<times> tracker)" where
  "simulate_tick start lat lon utc_offset_hours temps snow_detected fixed_tilt fixed_azimuth
       trk minutes =
     (let current_time = plus_minutes start minutes;
          hour_frac = real (hour current_time) + real (minute current_time) / 60.0;
          hour_int = hour current_time
      in case (if hour_int < length temps then Inr (temps ! hour_int) else py_last temps) of
           Inl e \<Rightarrow> Inl e
         | Inr temp_now \<Rightarrow>
      (case get_target_angles current_time lat lon utc_offset_hours of
           Inl e \<Rightarrow> Inl e
         | Inr optimal \<Rightarrow>
      (let zenith = opt_zenith optimal;
           irradiance_direct = (if zenith < 90 then 1000 * cos (radians zenith) else 0.0)
       in case update trk current_time temp_now snow_detected 10 of
            Inl e \<Rightarrow> Inl e
          | Inr (tracker_state, trk) \<Rightarrow>
       (let dual_tilt = cmd_tilt tracker_state;
            dual_azimuth = cmd_azimuth tracker_state;
            is_winter = cmd_winter_mode tracker_state;
            dual_inc_cos = max 0.0 (cos (radians (opt_tilt optimal - dual_tilt))
                                    * cos (radians (opt_azimuth optimal - dual_azimuth)));
            dual_power = irradiance_direct * dual_inc_cos;
            fixed_inc_cos = max 0.0 (cos (radians (opt_tilt optimal - fixed_tilt))
                                     * cos (radians (opt_azimuth optimal - fixed_azimuth)));
            fixed_power = irradiance_direct * fixed_inc_cos;
            single_inc_cos = max 0.0 (cos (radians (opt_tilt optimal - fixed_tilt)));
            single_power = irradiance_direct * single_inc_cos
        in Inr (\<lparr>Time = current_time, Hour = hour_frac, Zenith = zenith,
                  Opt_Tilt = opt_tilt optimal, Opt_Azimuth = opt_azimuth optimal,
                  Dual_Tilt = dual_tilt, Dual_Azimuth = dual_azimuth,
                  Is_Winter = is_winter, Temp_C = temp_now,
                  Irradiance_W_m2 = irradiance_direct, Power_Dual = dual_power,
                  Power_Single = single_power, Power_Fixed = fixed_power\<rparr>, trk)))))"

text \<open>The loop: the tracker and the list of records are threaded through the ticks.\<close>

fun simulate_loop :: "datetime \<Rightarrow> real \<Rightarrow> real \<Rightarrow> real \<Rightarrow> real list \<Rightarrow> bool \<Rightarrow> real \<Rightarrow> real \<Rightarrow> nat list \<Rightarrow> tracker \<Rightarrow> sim_record list \<Rightarrow> error + sim_record list" where
  "simulate_loop start lat lon utc_offset_hours temps snow_detected fixed_tilt fixed_azimuth
       [] trk records = Inr records"
| "simulate_loop start lat lon utc_offset_hours temps snow_detected fixed_tilt fixed_azimuth
       (minutes # rest) trk records =
     (case simulate_tick start lat lon utc_offset_hours temps snow_detected fixed_tilt
             fixed_azimuth trk minutes of
        Inl e \<Rightarrow> Inl e
      | Inr (r, trk') \<Rightarrow>
          simulate_loop start lat lon utc_offset_hours temps snow_detected fixed_tilt
            fixed_azimuth rest trk' (records @ [r]))"

text \<open>\<open>range(0, 24 * 60, 10)\<close>\<close>

definition tick_minutes :: "nat list" where
  "tick_minutes = map (\<lambda>k. 10 * k) [0..<144]"

definition simulate_day :: "datetime \<Rightarrow> real \<Rightarrow> real \<Rightarrow> real \<Rightarrow> real list \<Rightarrow> bool \<Rightarrow> real \<Rightarrow> real \<Rightarrow> error + sim_record list" where
  "simulate_day date_obj lat lon utc_offset_hours temps snow_detected fixed_tilt fixed_azimuth =
     simulate_loop (start_of_day date_obj) lat lon utc_offset_hours temps snow_detected
       fixed_tilt fixed_azimuth tick_minutes (new_tracker lat lon utc_offset_hours) []"

text \<open>The defaults of \<open>fixed_tilt\<close> and \<open>fixed_azimuth\<close>.\<close>

definition default_fixed_tilt :: real where
  "default_fixed_tilt = 30.0"

definition default_fixed_azimuth :: real where
  "default_fixed_azimuth = 180.0"

text \<open>
  The daily energy of one power column, as the dashboard integrates it (app.py):
  \<open>column.sum() * (10 / 60) / 1000.0\<close>, in kWh.
\<close>

definition energy_kwh :: "real list \<Rightarrow> real" where
  "energy_kwh powers = sum_list powers * (10 / 60) / 1000.0"

section \<open>Concrete inputs\<close>

definition noon_2025_01_15 :: datetime where
  "noon_2025_01_15 = \<lparr>year = 2025, month = 1, day = 15, hour = 12, minute = 0, second = 0, microsecond = 0\<rparr>"

definition noon_2025_06_21 :: datetime where
  "noon_2025_06_21 = \<lparr>year = 2025, month = 6, day = 21, hour = 12, minute = 0, second = 0, microsecond = 0\<rparr>"

definition tracked_at_noon :: tracker where
  "tracked_at_noon =
     \<lparr>latitude = 35, longitude = -118, utc_offset = -8, current_tilt = 30,
      current_azimuth = 180, last_update_time = Some noon_2025_01_15,
      is_winter_mode_active = False\<rparr>"

definition polar_tracker :: tracker where
  "polar_tracker = (new_tracker 90 0 0)\<lparr>current_tilt := 70, current_azimuth := 135\<rparr>"

text \<open>An hourly temperature profile of -5 degrees throughout.\<close>

definition cold_day_temps :: "real list" where
  "cold_day_temps = replicate 24 (-5)"

section \<open>Auxiliary facts\<close>

lemma py_fmod_bounds: "0 < m \<Longrightarrow> 0 \<le> py_fmod x m \<and> py_fmod x m < m"
proof -
  assume m: "0 < m"
  have "of_int \<lfloor>x / m\<rfloor> * m \<le> x / m * m"
    using m by (intro mult_right_mono) auto
  then have a: "m * of_int \<lfloor>x / m\<rfloor> \<le> x" using m by (simp add: mult.commute)
  have "x / m * m < (of_int \<lfloor>x / m\<rfloor> + 1) * m"
    using m by (intro mult_strict_right_mono) linarith+
  then have b: "x < m * (of_int \<lfloor>x / m\<rfloor> + 1)" using m by (simp add: mult.commute)
  show ?thesis unfolding py_fmod_def using a b by (simp add: algebra_simps)
qed

lemma py_fmod_id: "0 < m \<Longrightarrow> 0 \<le> x \<Longrightarrow> x < m \<Longrightarrow> py_fmod x m = x"
proof -
  assume m: "0 < m" and x: "0 \<le> x" "x < m"
  have "\<lfloor>x / m\<rfloor> = 0" using m x by (simp add: floor_eq_iff)
  then show ?thesis by (simp add: py_fmod_def)
qed

lemma py_acos_clamp: "py_acos (max (-1) (min 1 x)) = Inr (arccos (max (-1) (min 1 x)))"
  by (simp add: py_acos_def)

lemma zenith_and_azimuth_Inr: "\<exists>z a. zenith_and_azimuth lat dec h = Inr (z, a)"
  unfolding zenith_and_azimuth_def Let_def py_acos_clamp by simp

lemma get_target_angles_Inr:
  "\<exists>g. get_target_angles dt lat lon utc = Inr g \<and> opt_tilt g = opt_zenith g"
proof -
  obtain z a where "zenith_and_azimuth lat (solar_declination (get_day_of_year dt))
      (hour_angle (calculate_solar_time dt lon utc)) = Inr (z, a)"
    using zenith_and_azimuth_Inr by blast
  then show ?thesis by (simp add: get_target_angles_def Let_def)
qed


lemma update_skip:
  assumes "last_update_time s = Some t"
    and "total_seconds_between dt t / 60 < of_int (if temp < 2 \<and> snow then 60 else iv)"
  shows "update s dt temp snow iv =
     Inr (\<lparr>cmd_action = Skip, cmd_reason = Some ''Update interval not reached'',
           cmd_tilt = current_tilt s, cmd_azimuth = current_azimuth s,
           cmd_winter_mode = (temp < 2 \<and> snow), cmd_zenith = None, cmd_solar_time = None\<rparr>,
          s\<lparr>is_winter_mode_active := (temp < 2 \<and> snow)\<rparr>)"
  using assms by (simp add: update_def Let_def)

lemma update_commit:
  assumes "case last_update_time s of None \<Rightarrow> True
           | Some t \<Rightarrow> \<not> total_seconds_between dt t / 60 < of_int (if temp < 2 \<and> snow then 60 else iv)"
    and "get_target_angles dt (latitude s) (longitude s) (utc_offset s) = Inr g"
  shows "update s dt temp snow iv =
     Inr (\<lparr>cmd_action = (if opt_zenith g > 90 then Stow
                          else if temp < 2 \<and> snow then Winter_optimized else Track),
           cmd_reason = None,
           cmd_tilt = max 0 (min 90 (if opt_zenith g > 90 then (if temp < 2 \<and> snow then 65 else 0)
                          else if temp < 2 \<and> snow then max (opt_tilt g) 65 else opt_tilt g)),
           cmd_azimuth = py_fmod (if opt_zenith g > 90 then 180
                          else if temp < 2 \<and> snow then current_azimuth s else opt_azimuth g) 360,
           cmd_winter_mode = (temp < 2 \<and> snow), cmd_zenith = Some (opt_zenith g),
           cmd_solar_time = Some (opt_solar_time g)\<rparr>,
          s\<lparr>is_winter_mode_active := (temp < 2 \<and> snow),
            current_tilt := max 0 (min 90 (if opt_zenith g > 90 then (if temp < 2 \<and> snow then 65 else 0)
                          else if temp < 2 \<and> snow then max (opt_tilt g) 65 else opt_tilt g)),
            current_azimuth := py_fmod (if opt_zenith g > 90 then 180
                          else if temp < 2 \<and> snow then current_azimuth s else opt_azimuth g) 360,
            last_update_time := Some dt\<rparr>)"
  using assms by (cases "last_update_time s") (simp_all add: update_def Let_def)

lemma update_cases:
  obtains (skip) t where "last_update_time s = Some t"
      "total_seconds_between dt t / 60 < of_int (if temp < 2 \<and> snow then 60 else iv)"
  | (commit) g where "case last_update_time s of None \<Rightarrow> True
           | Some t \<Rightarrow> \<not> total_seconds_between dt t / 60 < of_int (if temp < 2 \<and> snow then 60 else iv)"
      "get_target_angles dt (latitude s) (longitude s) (utc_offset s) = Inr g"
proof (cases "last_update_time s")
  case None
  then show ?thesis using get_target_angles_Inr[of dt "latitude s" "longitude s" "utc_offset s"] commit by auto
next
  case (Some t)
  then show ?thesis using get_target_angles_Inr[of dt "latitude s" "longitude s" "utc_offset s"] commit skip
    by (cases "total_seconds_between dt t / 60 < of_int (if temp < 2 \<and> snow then 60 else iv)") auto
qed

lemma py_fmod_180: "py_fmod 180 360 = 180"
  by (rule py_fmod_id) simp_all

lemma cos_zenith_abs_le_1:
  "\<bar>sin p * sin d + cos p * cos d * cos h\<bar> \<le> (1::real)"
proof -
  have "\<bar>sin p * sin d + cos p * cos d * cos h\<bar> \<le> \<bar>sin p * sin d\<bar> + \<bar>cos p * cos d * cos h\<bar>"
    by (rule abs_triangle_ineq)
  also have "\<bar>cos p * cos d * cos h\<bar> = \<bar>cos p * cos d\<bar> * \<bar>cos h\<bar>" by (simp add: abs_mult)
  also have "\<bar>sin p * sin d\<bar> + \<bar>cos p * cos d\<bar> * \<bar>cos h\<bar> \<le> \<bar>sin p * sin d\<bar> + \<bar>cos p * cos d\<bar> * 1"
    by (intro add_left_mono mult_left_mono) auto
  also have "\<dots> \<le> 1"
  proof -
    have "(\<bar>sin p\<bar> - \<bar>sin d\<bar>)\<^sup>2 + (\<bar>cos p\<bar> - \<bar>cos d\<bar>)\<^sup>2 \<ge> 0" by simp
    then have "2 * (\<bar>sin p\<bar> * \<bar>sin d\<bar> + \<bar>cos p\<bar> * \<bar>cos d\<bar>) \<le> ((sin p)\<^sup>2 + (cos p)\<^sup>2) + ((sin d)\<^sup>2 + (cos d)\<^sup>2)"
      by (simp add: power2_diff algebra_simps)
    then have "\<bar>sin p\<bar> * \<bar>sin d\<bar> + \<bar>cos p\<bar> * \<bar>cos d\<bar> \<le> 1" by simp
    then show ?thesis by (simp add: abs_mult)
  qed
  finally show ?thesis .
qed

lemma spherical_identity_alg:
  fixes a b c d h k :: real
  assumes "a\<^sup>2 + b\<^sup>2 = 1" and "c\<^sup>2 + d\<^sup>2 = 1" and "h\<^sup>2 + k\<^sup>2 = 1"
  shows "(c * b - d * a * h)\<^sup>2 + (d * k)\<^sup>2 + (a * c + b * d * h)\<^sup>2 = 1"
proof -
  have "(c * b - d * a * h)\<^sup>2 + (d * k)\<^sup>2 + (a * c + b * d * h)\<^sup>2
        = (a\<^sup>2 + b\<^sup>2) * c\<^sup>2 + d\<^sup>2 * ((a\<^sup>2 + b\<^sup>2) * h\<^sup>2 + k\<^sup>2)"
    by (simp add: power2_eq_square algebra_simps)
  also have "\<dots> = c\<^sup>2 + d\<^sup>2 * (h\<^sup>2 + k\<^sup>2)" by (simp add: assms(1))
  also have "\<dots> = 1" by (simp add: assms(2,3))
  finally show ?thesis .
qed

lemma spherical_identity:
  fixes p d h :: real
  shows "(sin d * cos p - cos d * sin p * cos h)\<^sup>2 + (cos d * sin h)\<^sup>2
         + (sin p * sin d + cos p * cos d * cos h)\<^sup>2 = 1"
  by (rule spherical_identity_alg) (simp_all add: add.commute)

lemma radians_degrees [simp]: "radians (degrees x) = x"
  by (simp add: radians_def degrees_def)

lemma clamp_unit_id: "\<bar>x\<bar> \<le> 1 \<Longrightarrow> max (-1) (min 1 x) = (x::real)"
  by (auto simp: max_def min_def)

lemma clamp_unit_abs: "\<bar>max (-1) (min 1 (x::real))\<bar> \<le> 1"
  by (auto simp: max_def min_def)

lemma zenith_and_azimuth_eq:
  fixes lat dec h :: real
  defines "C \<equiv> sin (radians lat) * sin (radians dec) + cos (radians lat) * cos (radians dec) * cos (radians h)"
  defines "N \<equiv> sin (radians dec) * cos (radians lat) - cos (radians dec) * sin (radians lat) * cos (radians h)"
  shows "zenith_and_azimuth lat dec h =
     Inr (degrees (arccos C),
          if sqrt (1 - C\<^sup>2) > 0.001
          then (if h > 0 then 360 - degrees (arccos (max (-1) (min 1 (N / sqrt (1 - C\<^sup>2)))))
                else degrees (arccos (max (-1) (min 1 (N / sqrt (1 - C\<^sup>2))))))
          else 0)"
proof -
  have C1: "\<bar>C\<bar> \<le> 1" unfolding C_def by (rule cos_zenith_abs_le_1)
  have cl: "max (-1) (min 1 C) = C" using C1 by (rule clamp_unit_id)
  have s: "sin (arccos C) = sqrt (1 - C\<^sup>2)" using C1 by (rule sin_arccos_abs)
  have a1: "py_acos C = Inr (arccos C)" using C1 by (simp add: py_acos_def abs_le_iff)
  show ?thesis
    unfolding zenith_and_azimuth_def Let_def C_def[symmetric] N_def[symmetric]
    by (simp add: cl a1 py_acos_clamp s)
qed

lemma degrees_arccos_range:
  "\<bar>y\<bar> \<le> 1 \<Longrightarrow> 0 \<le> degrees (arccos y) \<and> degrees (arccos y) \<le> 180"
proof -
  assume "\<bar>y\<bar> \<le> 1"
  then have "0 \<le> arccos y" "arccos y \<le> pi"
    by (simp_all add: arccos_lbound arccos_ubound abs_le_iff)
  then show ?thesis by (simp add: degrees_def field_simps)
qed

lemma degrees_arccos_pos:
  assumes "\<bar>y\<bar> \<le> 1" and "y < 1"
  shows "0 < degrees (arccos y)"
proof -
  have "arccos y \<noteq> 0" using assms arccos_eq_0_iff[of y] by (auto simp: abs_le_iff)
  moreover have "0 \<le> arccos y" using assms by (simp add: arccos_lbound abs_le_iff)
  ultimately have "0 < arccos y" by simp
  then show ?thesis by (simp add: degrees_def)
qed

lemma solar_declination_bounds:
  "- (2345 / 100) \<le> solar_declination n \<and> solar_declination n \<le> 2345 / 100"
proof -
  have "- 1 \<le> sin x \<and> sin x \<le> 1" for x :: real by simp
  then show ?thesis unfolding solar_declination_def Let_def by (simp add: algebra_simps)
qed

lemma radians_declination_bounds:
  "- (pi / 6) < radians (solar_declination n) \<and> radians (solar_declination n) < pi / 6"
proof -
  have "- (2345 / 100) \<le> solar_declination n" "solar_declination n \<le> 2345 / 100"
    using solar_declination_bounds by simp_all
  then have "- 30 < solar_declination n" "solar_declination n < 30" by linarith+
  then have "(- 30) * pi < solar_declination n * pi" "solar_declination n * pi < 30 * pi"
    by (intro mult_strict_right_mono, simp, simp)+
  then show ?thesis by (simp add: radians_def)
qed

lemma cos_declination_pos: "0 < cos (radians (solar_declination n))"
proof -
  have "- (pi / 2) < radians (solar_declination n)" "radians (solar_declination n) < pi / 2"
    using radians_declination_bounds[of n] pi_gt_zero by linarith+
  then show ?thesis by (rule cos_gt_zero_pi)
qed

lemma solar_time_range:
  "0 \<le> calculate_solar_time dt lon utc \<and> calculate_solar_time dt lon utc < 24"
  unfolding calculate_solar_time_def Let_def using py_fmod_bounds[of 24] by simp

lemma hour_angle_range:
  "- 180 \<le> hour_angle (calculate_solar_time dt lon utc)
   \<and> hour_angle (calculate_solar_time dt lon utc) < 180"
  using solar_time_range[of dt lon utc] by (simp add: hour_angle_def)

lemma azimuth_range:
  assumes h: "- 180 \<le> h" "h < 180"
    and d: "cos (radians dec) \<noteq> 0"
    and za: "zenith_and_azimuth lat dec h = Inr (z, a)"
  shows "0 \<le> a \<and> a < 360"
proof -
  define C where "C = sin (radians lat) * sin (radians dec) + cos (radians lat) * cos (radians dec) * cos (radians h)"
  define N where "N = sin (radians dec) * cos (radians lat) - cos (radians dec) * sin (radians lat) * cos (radians h)"
  define S where "S = sqrt (1 - C\<^sup>2)"
  define G where "G = max (-1) (min 1 (N / S))"
  have a: "a = (if S > 0.001 then (if h > 0 then 360 - degrees (arccos G) else degrees (arccos G)) else 0)"
    using za unfolding zenith_and_azimuth_eq C_def N_def S_def G_def by simp
  have G1: "\<bar>G\<bar> \<le> 1" unfolding G_def by (rule clamp_unit_abs)
  have r: "0 \<le> degrees (arccos G)" "degrees (arccos G) \<le> 180"
    using degrees_arccos_range[OF G1] by simp_all
  show ?thesis
  proof (cases "S > 0.001 \<and> h > 0")
    case False
    then show ?thesis using a r by auto
  next
    case True
    then have Spos: "0 < S" by simp
    have C1: "\<bar>C\<bar> \<le> 1" unfolding C_def by (rule cos_zenith_abs_le_1)
    then have "C\<^sup>2 \<le> 1" by (simp add: abs_square_le_1)
    then have S2: "S\<^sup>2 = 1 - C\<^sup>2" by (simp add: S_def)
    have "0 < radians h" "radians h < pi" using True h by (simp_all add: radians_def)
    then have "0 < sin (radians h)" by (rule sin_gt_zero)
    then have "cos (radians dec) * sin (radians h) \<noteq> 0" using d by simp
    then have pos: "0 < (cos (radians dec) * sin (radians h))\<^sup>2" by simp
    have "N\<^sup>2 + (cos (radians dec) * sin (radians h))\<^sup>2 + C\<^sup>2 = 1"
      unfolding N_def C_def by (rule spherical_identity)
    then have "N\<^sup>2 < S\<^sup>2" using pos S2 by linarith
    then have "N < S" using Spos by (simp add: power2_less_imp_less)
    then have "N / S < 1" using Spos by simp
    then have "G < 1" by (simp add: G_def)
    then have "0 < degrees (arccos G)" using G1 by (simp add: degrees_arccos_pos)
    then show ?thesis using a r True by simp
  qed
qed

lemma zenith_range:
  assumes "zenith_and_azimuth lat dec h = Inr (z, a)"
  shows "0 \<le> z \<and> z \<le> 180"
proof -
  have "\<bar>sin (radians lat) * sin (radians dec) + cos (radians lat) * cos (radians dec) * cos (radians h)\<bar> \<le> 1"
    by (rule cos_zenith_abs_le_1)
  then show ?thesis using assms degrees_arccos_range unfolding zenith_and_azimuth_eq by auto
qed

lemma opt_zenith_eq:
  assumes "get_target_angles dt lat lon utc = Inr g"
  shows "opt_zenith g = degrees (arccos (cos_theta_z_at dt lat lon utc))"
    and "opt_tilt g = opt_zenith g"
  using assms
  by (auto simp: get_target_angles_def Let_def zenith_and_azimuth_eq cos_theta_z_at_def)

lemma cos_theta_z_at_abs: "\<bar>cos_theta_z_at dt lat lon utc\<bar> \<le> 1"
  unfolding cos_theta_z_at_def Let_def by (rule cos_zenith_abs_le_1)

lemma opt_zenith_gt_90_iff:
  assumes "get_target_angles dt lat lon utc = Inr g"
  shows "90 < opt_zenith g \<longleftrightarrow> cos_theta_z_at dt lat lon utc < 0"
proof -
  have "arccos 0 < arccos (cos_theta_z_at dt lat lon utc) \<longleftrightarrow> cos_theta_z_at dt lat lon utc < 0"
    using cos_theta_z_at_abs by (intro arccos_less_mono) simp_all
  then show ?thesis unfolding opt_zenith_eq(1)[OF assms] by (simp add: degrees_def field_simps)
qed

lemma opt_zenith_lt_90_iff:
  assumes "get_target_angles dt lat lon utc = Inr g"
  shows "opt_zenith g < 90 \<longleftrightarrow> 0 < cos_theta_z_at dt lat lon utc"
proof -
  have "arccos (cos_theta_z_at dt lat lon utc) < arccos 0 \<longleftrightarrow> 0 < cos_theta_z_at dt lat lon utc"
    using cos_theta_z_at_abs by (intro arccos_less_mono) simp_all
  then show ?thesis unfolding opt_zenith_eq(1)[OF assms] by (simp add: degrees_def field_simps)
qed

lemma cos_opt_zenith:
  assumes "get_target_angles dt lat lon utc = Inr g"
  shows "cos (radians (opt_zenith g)) = cos_theta_z_at dt lat lon utc"
  unfolding opt_zenith_eq(1)[OF assms] using cos_theta_z_at_abs[of dt lat lon utc]
  by (simp add: abs_le_iff)

lemma cos_theta_z_north_pole:
  "cos_theta_z_at dt 90 lon utc = sin (radians (solar_declination (get_day_of_year dt)))"
  by (simp add: cos_theta_z_at_def Let_def radians_def)

lemma day_of_year_2025_01_15: "get_day_of_year noon_2025_01_15 = 15"
  by (simp add: get_day_of_year_def tm_yday_def noon_2025_01_15_def days_before_month_def)

lemma upt_1_6: "[Suc 0..<6] = [1, 2, 3, 4, 5::nat]"
  by (simp add: upt_rec)

lemma day_of_year_2025_06_21: "get_day_of_year noon_2025_06_21 = 172"
  by (simp add: get_day_of_year_def tm_yday_def noon_2025_06_21_def days_before_month_def
      upt_1_6 days_in_month_def is_leap_def)

lemma declination_january_negative: "solar_declination 15 < 0"
proof -
  have e: "solar_declination 15 = 23.45 * sin (598 * pi / 365)"
    by (simp add: solar_declination_def Let_def radians_def)
  have "sin (598 * pi / 365) < 0"
    by (rule sin_lt_zero) (simp_all add: field_simps)
  then show ?thesis unfolding e by (simp add: mult_less_0_iff)
qed

lemma declination_june_positive: "0 < solar_declination 172"
proof -
  have "solar_declination 172 = 23.45 * sin (182 * pi / 365 + 2 * pi)"
    by (simp add: solar_declination_def Let_def radians_def field_simps)
  then have e: "solar_declination 172 = 23.45 * sin (182 * pi / 365)"
    by (simp only: sin_periodic)
  have "0 < sin (182 * pi / 365)"
    by (rule sin_gt_zero) (simp_all add: field_simps)
  then show ?thesis unfolding e by (simp add: zero_less_mult_iff)
qed

lemma sin_radians_declination_sign:
  "(sin (radians (solar_declination n)) < 0 \<longleftrightarrow> solar_declination n < 0)
   \<and> (0 < sin (radians (solar_declination n)) \<longleftrightarrow> 0 < solar_declination n)"
proof -
  have b: "- (pi / 2) < radians (solar_declination n)" "radians (solar_declination n) < pi / 2"
    using radians_declination_bounds[of n] pi_gt_zero by linarith+
  have s: "sin 0 < sin (radians (solar_declination n)) \<longleftrightarrow> 0 < radians (solar_declination n)"
    using b by (intro sin_mono_less_eq) simp_all
  have s': "sin (radians (solar_declination n)) < sin 0 \<longleftrightarrow> radians (solar_declination n) < 0"
    using b by (intro sin_mono_less_eq) simp_all
  have "0 < radians (solar_declination n) \<longleftrightarrow> 0 < solar_declination n"
       "radians (solar_declination n) < 0 \<longleftrightarrow> solar_declination n < 0"
    by (simp_all add: radians_def zero_less_mult_iff mult_less_0_iff)
  then show ?thesis using s s' by simp
qed

lemma polar_night_january:
  assumes "get_target_angles noon_2025_01_15 90 lon utc = Inr g"
  shows "90 < opt_zenith g"
  unfolding opt_zenith_gt_90_iff[OF assms] cos_theta_z_north_pole day_of_year_2025_01_15
  using declination_january_negative sin_radians_declination_sign[of 15] by simp

lemma polar_day_june:
  assumes "get_target_angles noon_2025_06_21 90 lon utc = Inr g"
  shows "opt_zenith g < 90"
  unfolding opt_zenith_lt_90_iff[OF assms] cos_theta_z_north_pole day_of_year_2025_06_21
  using declination_june_positive sin_radians_declination_sign[of 172] by simp

lemma update_first_call:
  assumes "last_update_time s = None"
    and "get_target_angles dt (latitude s) (longitude s) (utc_offset s) = Inr g"
  shows "\<not> isl (update s dt temp snow iv)"
    and "cmd_action (fst (projr (update s dt temp snow iv))) \<noteq> Skip"
    and "update s dt temp snow iv = Inr (fst (projr (update s dt temp snow iv)), snd (projr (update s dt temp snow iv)))"
  using update_commit[where s=s and dt=dt and temp=temp and snow=snow and iv=iv and g=g] assms by auto

lemma five_minutes_after_noon:
  "total_seconds_between (noon_2025_01_15\<lparr>minute := 5\<rparr>) noon_2025_01_15 = 300"
  by (simp add: total_seconds_between_def toordinal_def noon_2025_01_15_def)

lemma one_hour_before_noon:
  "total_seconds_between (noon_2025_01_15\<lparr>hour := 11\<rparr>) noon_2025_01_15 = - 3600"
  by (simp add: total_seconds_between_def toordinal_def noon_2025_01_15_def)

lemma half_hour_after_noon:
  "total_seconds_between (noon_2025_01_15\<lparr>minute := 30\<rparr>) noon_2025_01_15 = 1800"
  by (simp add: total_seconds_between_def toordinal_def noon_2025_01_15_def)

lemma gain_at_boundary:
  "energy_gain (new_controller (\<lambda>h t c z. 37.5) default_motor_energy_cost_wh)
      0 90 180 180 noon_2025_01_15 20 0 30 default_area default_efficiency = 2.5"
  by (simp add: energy_gain_def expected_energy_moving_wh_def expected_energy_staying_wh_def
      predicted_irradiance_of_def new_controller_def default_area_def default_efficiency_def
      radians_def Let_def)

lemma update_Inr: "\<exists>c s'. update s dt temp snow iv = Inr (c, s')"
proof (cases rule: update_cases[of s dt temp snow iv])
  case (skip t)
  then show ?thesis using update_skip[OF skip] by blast
next
  case (commit g)
  then show ?thesis using update_commit[OF commit] by blast
qed

lemma simulate_tick_empty:
  "simulate_tick start lat lon utc [] snow ft fa trk m = Inl IndexError"
  by (simp add: simulate_tick_def Let_def py_last_def)

lemma simulate_tick_Inr:
  assumes "temps \<noteq> []"
  shows "\<exists>r trk'. simulate_tick start lat lon utc temps snow ft fa trk m = Inr (r, trk')"
proof -
  have "\<exists>temp_now. (if hour (plus_minutes start m) < length temps
        then Inr (temps ! hour (plus_minutes start m)) else py_last temps)
        = (Inr temp_now :: error + real)"
    using assms by (simp add: py_last_def)
  then obtain temp_now where t: "(if hour (plus_minutes start m) < length temps
        then Inr (temps ! hour (plus_minutes start m)) else py_last temps)
        = (Inr temp_now :: error + real)"
    by blast
  obtain g where g: "get_target_angles (plus_minutes start m) lat lon utc = Inr g"
    using get_target_angles_Inr by blast
  obtain c s' where u: "update trk (plus_minutes start m) temp_now snow 10 = Inr (c, s')"
    using update_Inr by blast
  show ?thesis using t g u by (simp add: simulate_tick_def Let_def)
qed

lemma simulate_loop_Inr:
  assumes "temps \<noteq> []"
  shows "\<exists>rs. simulate_loop start lat lon utc temps snow ft fa ms trk recs = Inr rs
           \<and> length rs = length recs + length ms"
proof (induction ms arbitrary: trk recs)
  case Nil
  then show ?case by simp
next
  case (Cons m ms)
  obtain r trk' where t: "simulate_tick start lat lon utc temps snow ft fa trk m = Inr (r, trk')"
    using simulate_tick_Inr[OF assms] by blast
  show ?case using Cons[of trk' "recs @ [r]"] t by auto
qed

lemma tick_minutes_Cons: "tick_minutes = 0 # map (\<lambda>k. 10 * k) [1..<144]"
  by (simp add: tick_minutes_def upt_conv_Cons)

lemma length_tick_minutes: "length tick_minutes = 144"
  by (simp add: tick_minutes_def)

lemma sin_lower_cubic:
  fixes x :: real
  assumes "0 \<le> x"
  shows "x - x ^ 3 / 6 \<le> sin x"
proof -
  have e: "(\<Sum>m<3. sin_coeff m * x ^ m) = x"
    by (simp add: sin_coeff_def numeral_3_eq_3)
  have "\<bar>sin x - (\<Sum>m<3. sin_coeff m * x ^ m)\<bar> \<le> inverse (fact 3) * \<bar>x\<bar> ^ 3"
    by (rule Maclaurin_sin_bound)
  then have "\<bar>sin x - x\<bar> \<le> inverse (fact 3) * \<bar>x\<bar> ^ 3"
    by (simp only: e)
  moreover have "(fact 3 :: real) = 6" by (simp add: fact_numeral)
  moreover have "\<bar>x\<bar> = x" using assms by simp
  ultimately have "\<bar>sin x - x\<bar> \<le> x ^ 3 / 6"
    by (simp only: divide_inverse mult.commute)
  then show ?thesis by linarith
qed

lemma cos_lower_quadratic:
  fixes x :: real
  shows "1 - x\<^sup>2 / 2 \<le> cos x"
proof -
  have "\<bar>sin (x / 2)\<bar> \<le> \<bar>x / 2\<bar>" by (rule abs_sin_x_le_abs_x)
  then have "(sin (x / 2))\<^sup>2 \<le> (x / 2)\<^sup>2"
    using abs_le_square_iff[of "sin (x / 2)" "x / 2"] by blast
  moreover have "cos x = 1 - 2 * (sin (x / 2))\<^sup>2"
    using cos_double_sin[of "x / 2"] by simp
  ultimately show ?thesis by (simp add: power2_eq_square)
qed

lemma pi_ge_3: "3 \<le> pi"
proof -
  have "sin (pi / 6) \<le> pi / 6" by (rule sin_x_le_x) simp
  then show ?thesis by (simp add: sin_30)
qed

lemma pi_less_16_5: "pi < 16 / 5"
proof (rule ccontr)
  assume "\<not> pi < 16 / 5"
  then have lo: "8 / 15 \<le> pi / 6" by simp
  have hi: "pi / 6 \<le> 1" using pi_less_4 by simp
  define x where "x = pi / 6"
  have x: "8 / 15 \<le> x" "x \<le> 1" using lo hi by (simp_all add: x_def)
  have "x - x ^ 3 / 6 \<le> sin x" by (rule sin_lower_cubic) (use x in simp)
  then have s: "x - x ^ 3 / 6 \<le> 1 / 2" by (simp add: x_def sin_30)
  have "x\<^sup>2 \<le> 1" using x by (intro power_le_one) simp_all
  then have "x\<^sup>2 + x * (8 / 15) + (8 / 15)\<^sup>2 \<le> 1 + 1 * (8 / 15) + (8 / 15)\<^sup>2"
    using x by (intro add_mono mult_right_mono) simp_all
  then have f: "0 \<le> 1 - (x\<^sup>2 + x * (8 / 15) + (8 / 15)\<^sup>2) / 6" by (simp add: power2_eq_square)
  have "0 \<le> (x - 8 / 15) * (1 - (x\<^sup>2 + x * (8 / 15) + (8 / 15)\<^sup>2) / 6)"
    using x f by (intro mult_nonneg_nonneg) simp_all
  also have "\<dots> = (x - x ^ 3 / 6) - (8 / 15 - (8 / 15) ^ 3 / 6)"
  proof -
    have "(x - c) * (1 - (x\<^sup>2 + x * c + c\<^sup>2) / 6) = (x - x ^ 3 / 6) - (c - c ^ 3 / 6)"
      for c :: real
      by (simp add: power2_eq_square power3_eq_cube field_simps)
    then show ?thesis .
  qed
  finally have "8 / 15 - (8 / 15) ^ 3 / 6 \<le> x - x ^ 3 / 6" by simp
  then have "(8 / 15 - (8 / 15) ^ 3 / 6 :: real) \<le> 1 / 2" using s by linarith
  then show False by (simp add: power3_eq_cube)
qed

lemma sqrt3_bounds: "1732 / 1000 < sqrt 3" "sqrt 3 < 1733 / 1000"
proof -
  show "1732 / 1000 < sqrt 3" by (rule real_less_rsqrt) (simp add: power2_eq_square)
  show "sqrt 3 < 1733 / 1000" by (rule real_less_lsqrt) (simp_all add: power2_eq_square)
qed

lemma sqrt2_bounds: "1414 / 1000 < sqrt 2" "sqrt 2 < 1415 / 1000"
proof -
  show "1414 / 1000 < sqrt 2" by (rule real_less_rsqrt) (simp add: power2_eq_square)
  show "sqrt 2 < 1415 / 1000" by (rule real_less_lsqrt) (simp_all add: power2_eq_square)
qed

lemma harmonic_sum_bound:
  fixes c1 s1 c2 s2 :: real
  assumes "\<bar>c1\<bar> \<le> 1" "\<bar>s1\<bar> \<le> 1" "\<bar>c2\<bar> \<le> 1" "\<bar>s2\<bar> \<le> 1"
  shows "\<bar>22918 / 100 * (75 / 1000000 + 1868 / 1000000 * c1 - 32077 / 1000000 * s1
            - 14615 / 1000000 * c2 - 40849 / 1000000 * s2)\<bar> \<le> 21"
  using assms by (simp add: abs_le_iff)

lemma equation_of_time_bound: "\<bar>equation_of_time n\<bar> \<le> 21"
proof -
  define B where "B = radians ((of_int n - 1) * 360 / 365)"
  have e: "equation_of_time n = 22918 / 100 * (75 / 1000000 + 1868 / 1000000 * cos B
              - 32077 / 1000000 * sin B - 14615 / 1000000 * cos (2 * B)
              - 40849 / 1000000 * sin (2 * B))"
    by (simp add: equation_of_time_def Let_def B_def)
  show ?thesis unfolding e by (rule harmonic_sum_bound) simp_all
qed

lemma cos_hour_angle: "cos (radians (hour_angle (py_fmod x 24))) = - cos (x * pi / 12)"
proof -
  have "radians (hour_angle (py_fmod x 24)) = (x * pi / 12 - pi) - (2 * pi) * of_int \<lfloor>x / 24\<rfloor>"
    by (simp add: radians_def hour_angle_def py_fmod_def field_simps)
  then have "cos (radians (hour_angle (py_fmod x 24))) = cos (x * pi / 12 - pi)"
    by (simp only: cos_diff cos_int_2pin sin_int_2pin) simp
  then show ?thesis by (simp add: cos_diff)
qed

lemma sin_hour_angle: "sin (radians (hour_angle (py_fmod x 24))) = - sin (x * pi / 12)"
proof -
  have "radians (hour_angle (py_fmod x 24)) = (x * pi / 12 - pi) - (2 * pi) * of_int \<lfloor>x / 24\<rfloor>"
    by (simp add: radians_def hour_angle_def py_fmod_def field_simps)
  then have "sin (radians (hour_angle (py_fmod x 24))) = sin (x * pi / 12 - pi)"
    by (simp only: sin_diff cos_int_2pin sin_int_2pin) simp
  then show ?thesis by (simp add: sin_diff)
qed

lemma declination_june_eq: "solar_declination 172 = 2345 / 100 * cos (pi / 730)"
proof -
  have "solar_declination 172 = 23.45 * sin (182 * pi / 365 + 2 * pi)"
    by (simp add: solar_declination_def Let_def radians_def field_simps)
  then have "solar_declination 172 = 23.45 * sin (182 * pi / 365)"
    by (simp only: sin_periodic)
  moreover have "sin (182 * pi / 365) = cos (pi / 730)"
    using sin_cos_eq[of "182 * pi / 365"] by simp
  ultimately show ?thesis by simp
qed

lemma cos_small_june: "9999 / 10000 \<le> cos (pi / 730)" "cos (pi / 730) \<le> 1"
proof -
  have "0 \<le> pi / 730" "pi / 730 \<le> 1 / 100" using pi_less_4 by simp_all
  then have "(pi / 730)\<^sup>2 \<le> (1 / 100)\<^sup>2" by (intro power_mono) simp_all
  then have "1 - (1 / 100)\<^sup>2 / 2 \<le> 1 - (pi / 730)\<^sup>2 / 2" by simp
  also have "\<dots> \<le> cos (pi / 730)" by (rule cos_lower_quadratic)
  finally show "9999 / 10000 \<le> cos (pi / 730)" by (simp add: power2_eq_square)
  show "cos (pi / 730) \<le> 1" by simp
qed

lemma june_declination_radians:
  "39 / 100 \<le> radians (solar_declination 172)" "radians (solar_declination 172) \<le> 417 / 1000"
proof -
  define t where "t = cos (pi / 730) * pi"
  have e: "radians (solar_declination 172) = 2345 / 18000 * t"
    by (simp add: declination_june_eq radians_def t_def)
  have "9999 / 10000 * 3 \<le> t"
    unfolding t_def using cos_small_june(1) pi_ge_3 by (intro mult_mono) simp_all
  then show "39 / 100 \<le> radians (solar_declination 172)" unfolding e by simp
  have "t \<le> 1 * (16 / 5)"
    unfolding t_def using cos_small_june(2) pi_less_16_5 by (intro mult_mono) simp_all
  then show "radians (solar_declination 172) \<le> 417 / 1000" unfolding e by simp
qed

lemma june_sin_declination:
  "38 / 100 \<le> sin (radians (solar_declination 172))"
  "sin (radians (solar_declination 172)) \<le> 417 / 1000"
proof -
  let ?d = "radians (solar_declination 172)"
  have h: "417 / 1000 \<le> pi / 2" using pi_ge_3 by simp
  have "(39 / 100 :: real) - (39 / 100) ^ 3 / 6 \<le> sin (39 / 100)"
    by (rule sin_lower_cubic) simp
  moreover have "sin (39 / 100) \<le> sin ?d"
    using june_declination_radians h by (intro sin_monotone_2pi_le) simp_all
  ultimately show "38 / 100 \<le> sin ?d" by (simp add: power3_eq_cube)
  have "sin ?d \<le> ?d" using june_declination_radians(1) by (intro sin_x_le_x) simp
  then show "sin ?d \<le> 417 / 1000" using june_declination_radians(2) by simp
qed

lemma june_cos_declination:
  "913 / 1000 \<le> cos (radians (solar_declination 172))"
  "cos (radians (solar_declination 172)) \<le> 1"
proof -
  let ?d = "radians (solar_declination 172)"
  have "?d\<^sup>2 \<le> (417 / 1000)\<^sup>2"
    using june_declination_radians by (intro power_mono) simp_all
  then have "1 - (417 / 1000)\<^sup>2 / 2 \<le> 1 - ?d\<^sup>2 / 2" by simp
  also have "\<dots> \<le> cos ?d" by (rule cos_lower_quadratic)
  finally show "913 / 1000 \<le> cos ?d" by (simp add: power2_eq_square)
  show "cos ?d \<le> 1" by simp
qed

lemma cos_equation_of_time: "995 / 1000 \<le> cos (equation_of_time n * pi / 720)"
proof -
  let ?x = "equation_of_time n * pi / 720"
  define t where "t = \<bar>equation_of_time n\<bar> * pi"
  have "t \<le> 21 * (16 / 5)"
    unfolding t_def using equation_of_time_bound[of n] pi_less_16_5 by (intro mult_mono) simp_all
  moreover have "\<bar>?x\<bar> = t / 720" by (simp add: abs_mult t_def)
  ultimately have "\<bar>?x\<bar> \<le> 1 / 10" by simp
  then have "?x\<^sup>2 \<le> (1 / 10)\<^sup>2"
    using abs_le_square_iff[of ?x "1 / 10"] by simp
  then have "1 - (1 / 10)\<^sup>2 / 2 \<le> 1 - ?x\<^sup>2 / 2" by simp
  also have "\<dots> \<le> cos ?x" by (rule cos_lower_quadratic)
  finally show ?thesis by (simp add: power2_eq_square)
qed

lemma cos_opt_azimuth:
  assumes "get_target_angles dt lat lon utc = Inr g"
  shows "cos (radians (opt_azimuth g)) =
     (if sqrt (1 - (cos_theta_z_at dt lat lon utc)\<^sup>2) > 0.001
      then max (-1) (min 1 (cos_gamma_numerator_at dt lat lon utc
                             / sqrt (1 - (cos_theta_z_at dt lat lon utc)\<^sup>2)))
      else 1)"
proof -
  have c: "cos (radians (degrees (arccos (max (-1) (min 1 y))))) = max (-1) (min 1 y)" for y :: real
    using clamp_unit_abs[of y] by (simp add: abs_le_iff)
  have m: "cos (radians (360 - x)) = cos (radians x)" for x
  proof -
    have "radians (360 - x) = 2 * pi - radians x" by (simp add: radians_def field_simps)
    then show ?thesis by simp
  qed
  have z: "cos (radians 0) = 1" by (simp add: radians_def)
  show ?thesis
    using assms
    by (auto simp: get_target_angles_def Let_def zenith_and_azimuth_eq cos_theta_z_at_def
        cos_gamma_numerator_at_def c m z simp del: radians_degrees)
qed

lemma cos_azimuth_minus_180: "cos (radians (a - 180)) = - cos (radians a)"
proof -
  have "radians (a - 180) = radians a - pi" by (simp add: radians_def field_simps)
  then show ?thesis by (simp add: cos_diff)
qed

lemma numerator_le_sin_zenith:
  "(cos_gamma_numerator_at dt lat lon utc)\<^sup>2 \<le> 1 - (cos_theta_z_at dt lat lon utc)\<^sup>2"
proof -
  let ?p = "radians lat"
  let ?d = "radians (solar_declination (get_day_of_year dt))"
  let ?h = "radians (hour_angle (calculate_solar_time dt lon utc))"
  have "(sin ?d * cos ?p - cos ?d * sin ?p * cos ?h)\<^sup>2 + (cos ?d * sin ?h)\<^sup>2
         + (sin ?p * sin ?d + cos ?p * cos ?d * cos ?h)\<^sup>2 = 1"
    by (rule spherical_identity)
  moreover have "0 \<le> (cos ?d * sin ?h)\<^sup>2" by simp
  ultimately show ?thesis
    unfolding cos_gamma_numerator_at_def cos_theta_z_at_def Let_def by linarith
qed

lemma sun_in_south_imp:
  assumes "get_target_angles dt lat lon utc = Inr g"
    and "0 < cos (radians (opt_azimuth g - 180))"
  shows "cos_gamma_numerator_at dt lat lon utc < 0"
proof -
  let ?S = "sqrt (1 - (cos_theta_z_at dt lat lon utc)\<^sup>2)"
  let ?N = "cos_gamma_numerator_at dt lat lon utc"
  have neg: "cos (radians (opt_azimuth g)) < 0"
    using assms(2) by (simp add: cos_azimuth_minus_180)
  then have S: "?S > 0.001" and G: "max (-1) (min 1 (?N / ?S)) < 0"
    unfolding cos_opt_azimuth[OF assms(1)] by (auto split: if_splits)
  from G have "?N / ?S < 0" by (auto simp: max_def min_def split: if_splits)
  moreover have "1 / 1000 < ?S" using S by simp
  then have "0 < ?S" by linarith
  ultimately show ?thesis by (simp only: divide_less_0_iff) linarith
qed

lemma sun_in_south_if:
  assumes "get_target_angles dt lat lon utc = Inr g"
    and "cos_gamma_numerator_at dt lat lon utc < - (1 / 100)"
  shows "0 < cos (radians (opt_azimuth g - 180))"
proof -
  let ?S = "sqrt (1 - (cos_theta_z_at dt lat lon utc)\<^sup>2)"
  let ?N = "cos_gamma_numerator_at dt lat lon utc"
  have "(1 / 100)\<^sup>2 \<le> ?N\<^sup>2"
    using assms(2) abs_le_square_iff[of "1 / 100" ?N] by simp
  also have "\<dots> \<le> 1 - (cos_theta_z_at dt lat lon utc)\<^sup>2" by (rule numerator_le_sin_zenith)
  finally have "1 / 100 \<le> ?S" by (rule real_le_rsqrt)
  then have S0: "0 < ?S" by linarith
  have S: "?S > 0.001" using \<open>1 / 100 \<le> ?S\<close> by simp
  have "?N < 0" using assms(2) by linarith
  then have "?N / ?S < 0" using S0 by (simp only: divide_less_0_iff) simp
  then have "max (-1) (min 1 (?N / ?S)) < 0" by (simp add: max_def min_def)
  then show ?thesis
    unfolding cos_azimuth_minus_180 cos_opt_azimuth[OF assms(1)] using S by simp
qed

lemma minutes_as_hours: "real (m div 60) + real (m mod 60) / 60 = real m / 60"
proof -
  have "real m = real (60 * (m div 60) + m mod 60)" by simp
  also have "\<dots> = 60 * real (m div 60) + real (m mod 60)"
    by (simp only: of_nat_add of_nat_mult of_nat_numeral)
  finally show ?thesis by simp
qed

lemma june_tick_day:
  "get_day_of_year (plus_minutes (start_of_day noon_2025_06_21) m) = 172"
  by (simp add: get_day_of_year_def tm_yday_def noon_2025_06_21_def days_before_month_def
      upt_1_6 days_in_month_def is_leap_def plus_minutes_def start_of_day_def)

lemma june_tick_cos_h:
  "cos (radians (hour_angle (calculate_solar_time
      (plus_minutes (start_of_day noon_2025_06_21) m) (-90) (-6))))
   = - cos ((real m / 60 + equation_of_time 172 / 60) * pi / 12)"
proof -
  have "calculate_solar_time (plus_minutes (start_of_day noon_2025_06_21) m) (-90) (-6)
        = py_fmod (real m / 60 + equation_of_time 172 / 60) 24"
    unfolding calculate_solar_time_def Let_def june_tick_day
    by (simp add: solar_time_correction_def standard_meridian_def plus_minutes_def
        start_of_day_def minutes_as_hours)
  then show ?thesis by (simp only: cos_hour_angle)
qed

lemma june_cos_theta:
  "cos_theta_z_at (plus_minutes (start_of_day noon_2025_06_21) m) 30 (-90) (-6)
   = sin (radians (solar_declination 172)) / 2
     + sqrt 3 / 2 * (cos (radians (solar_declination 172))
         * (- cos ((real m / 60 + equation_of_time 172 / 60) * pi / 12)))"
proof -
  have r: "radians 30 = pi / 6" by (simp add: radians_def)
  show ?thesis
    unfolding cos_theta_z_at_def Let_def june_tick_day june_tick_cos_h r sin_30 cos_30
    by simp
qed

lemma june_numerator:
  "cos_gamma_numerator_at (plus_minutes (start_of_day noon_2025_06_21) m) 30 (-90) (-6)
   = sin (radians (solar_declination 172)) * (sqrt 3 / 2)
     - (cos (radians (solar_declination 172))
         * (- cos ((real m / 60 + equation_of_time 172 / 60) * pi / 12))) / 2"
proof -
  have r: "radians 30 = pi / 6" by (simp add: radians_def)
  show ?thesis
    unfolding cos_gamma_numerator_at_def Let_def june_tick_day june_tick_cos_h r sin_30 cos_30
    by simp
qed

lemma june_south_high:
  assumes "cos_gamma_numerator_at (plus_minutes (start_of_day noon_2025_06_21) m) 30 (-90) (-6) < 0"
  shows "sqrt 2 / 2 < cos_theta_z_at (plus_minutes (start_of_day noon_2025_06_21) m) 30 (-90) (-6)"
proof -
  define sd where "sd = sin (radians (solar_declination 172))"
  define t where "t = cos (radians (solar_declination 172))
         * (- cos ((real m / 60 + equation_of_time 172 / 60) * pi / 12))"
  have n: "sd * (sqrt 3 / 2) - t / 2 < 0"
    using assms unfolding june_numerator sd_def t_def .
  then have "sqrt 3 * sd < t" by (simp add: mult.commute)
  then have "sqrt 3 * (sqrt 3 * sd) < sqrt 3 * t"
    by (intro mult_strict_left_mono) simp_all
  moreover have "sqrt 3 * (sqrt 3 * sd) = 3 * sd" by simp
  moreover define u where "u = sqrt 3 * t"
  ultimately have "3 * sd < u" by simp
  moreover have "sqrt 3 / 2 * t = u / 2" by (simp add: u_def)
  ultimately have "2 * sd < sd / 2 + sqrt 3 / 2 * t" by linarith
  moreover have "38 / 100 \<le> sd" unfolding sd_def by (rule june_sin_declination)
  moreover have "sqrt 2 / 2 < 76 / 100" using sqrt2_bounds(2) by simp
  ultimately show ?thesis unfolding june_cos_theta sd_def t_def by linarith
qed

lemma june_midnight_dark:
  "cos_theta_z_at (plus_minutes (start_of_day noon_2025_06_21) 0) 30 (-90) (-6) < 0"
proof -
  define sd where "sd = sin (radians (solar_declination 172))"
  define cd where "cd = cos (radians (solar_declination 172))"
  define ce where "ce = cos (equation_of_time 172 * pi / 720)"
  have b: "sd \<le> 417 / 1000" "913 / 1000 \<le> cd" "995 / 1000 \<le> ce"
    unfolding sd_def cd_def ce_def
    by (rule june_sin_declination june_cos_declination cos_equation_of_time)+
  define t where "t = cd * ce"
  have p: "913 / 1000 * (995 / 1000) \<le> t"
    unfolding t_def using b by (intro mult_mono) simp_all
  have "1732 / 1000 / 2 * (913 / 1000 * (995 / 1000)) \<le> sqrt 3 / 2 * t"
    by (rule mult_mono) (use sqrt3_bounds(1) p in simp_all)
  then have "sd / 2 + sqrt 3 / 2 * (- t) < 0" using b(1) by simp
  then have "sd / 2 + sqrt 3 / 2 * (cd * (- ce)) < 0" by (simp add: t_def)
  moreover have "(real 0 / 60 + equation_of_time 172 / 60) * pi / 12 = equation_of_time 172 * pi / 720"
    by simp
  ultimately show ?thesis unfolding june_cos_theta sd_def cd_def ce_def by (simp only:)
qed

lemma june_noon_cos_h:
  "- cos ((real 720 / 60 + equation_of_time 172 / 60) * pi / 12) = cos (equation_of_time 172 * pi / 720)"
proof -
  have "(real 720 / 60 + equation_of_time 172 / 60) * pi / 12 = equation_of_time 172 * pi / 720 + pi"
    by (simp add: field_simps)
  then show ?thesis by (simp only: cos_periodic_pi)
qed

lemma june_noon_geometry:
  "0 < cos_theta_z_at (plus_minutes (start_of_day noon_2025_06_21) 720) 30 (-90) (-6)"
  "cos_gamma_numerator_at (plus_minutes (start_of_day noon_2025_06_21) 720) 30 (-90) (-6) < - (1 / 100)"
proof -
  define sd where "sd = sin (radians (solar_declination 172))"
  define cd where "cd = cos (radians (solar_declination 172))"
  define ce where "ce = cos (equation_of_time 172 * pi / 720)"
  have b: "38 / 100 \<le> sd" "sd \<le> 417 / 1000" "913 / 1000 \<le> cd" "995 / 1000 \<le> ce"
    unfolding sd_def cd_def ce_def
    by (rule june_sin_declination june_cos_declination cos_equation_of_time)+
  have p: "913 / 1000 * (995 / 1000) \<le> cd * ce" using b by (intro mult_mono) simp_all
  have "0 \<le> sqrt 3 / 2 * (cd * ce)" using p by simp
  then have "0 < sd / 2 + sqrt 3 / 2 * (cd * ce)" using b(1) by linarith
  then show "0 < cos_theta_z_at (plus_minutes (start_of_day noon_2025_06_21) 720) 30 (-90) (-6)"
    unfolding june_cos_theta june_noon_cos_h sd_def cd_def ce_def .
  have "sd * (sqrt 3 / 2) \<le> 417 / 1000 * (1733 / 1000 / 2)"
    using b sqrt3_bounds(2) by (intro mult_mono) simp_all
  then have "sd * (sqrt 3 / 2) - (cd * ce) / 2 < - (1 / 100)" using p by simp
  then show "cos_gamma_numerator_at (plus_minutes (start_of_day noon_2025_06_21) 720) 30 (-90) (-6) < - (1 / 100)"
    unfolding june_numerator june_noon_cos_h sd_def cd_def ce_def .
qed

lemma simulate_tick_result:
  assumes "temps \<noteq> []"
  obtains g c trk' r where
    "get_target_angles (plus_minutes start m) lat lon utc = Inr g"
    "update trk (plus_minutes start m)
       (if hour (plus_minutes start m) < length temps
        then temps ! hour (plus_minutes start m) else last temps) snow 10 = Inr (c, trk')"
    "simulate_tick start lat lon utc temps snow ft fa trk m = Inr (r, trk')"
    "Zenith r = opt_zenith g"
    "Power_Dual r = (if opt_zenith g < 90 then 1000 * cos (radians (opt_zenith g)) else 0)
        * max 0 (cos (radians (opt_tilt g - cmd_tilt c))
                 * cos (radians (opt_azimuth g - cmd_azimuth c)))"
    "Power_Fixed r = (if opt_zenith g < 90 then 1000 * cos (radians (opt_zenith g)) else 0)
        * max 0 (cos (radians (opt_tilt g - ft)) * cos (radians (opt_azimuth g - fa)))"
proof -
  let ?t = "if hour (plus_minutes start m) < length temps
        then temps ! hour (plus_minutes start m) else last temps"
  have t: "(if hour (plus_minutes start m) < length temps
        then Inr (temps ! hour (plus_minutes start m)) else py_last temps)
        = (Inr ?t :: error + real)"
    using assms by (simp add: py_last_def)
  obtain g where g: "get_target_angles (plus_minutes start m) lat lon utc = Inr g"
    using get_target_angles_Inr by blast
  obtain c trk' where u: "update trk (plus_minutes start m) ?t snow 10 = Inr (c, trk')"
    using update_Inr by blast
  have "\<exists>r. simulate_tick start lat lon utc temps snow ft fa trk m = Inr (r, trk')
      \<and> Zenith r = opt_zenith g
      \<and> Power_Dual r = (if opt_zenith g < 90 then 1000 * cos (radians (opt_zenith g)) else 0)
        * max 0 (cos (radians (opt_tilt g - cmd_tilt c))
                 * cos (radians (opt_azimuth g - cmd_azimuth c)))
      \<and> Power_Fixed r = (if opt_zenith g < 90 then 1000 * cos (radians (opt_zenith g)) else 0)
        * max 0 (cos (radians (opt_tilt g - ft)) * cos (radians (opt_azimuth g - fa)))"
    by (simp add: simulate_tick_def Let_def t g u)
  then show ?thesis using that[OF g u] by blast
qed

lemma target_angles_ranges:
  assumes "get_target_angles dt lat lon utc = Inr g"
  shows "0 \<le> opt_zenith g \<and> opt_zenith g \<le> 180 \<and> 0 \<le> opt_azimuth g \<and> opt_azimuth g < 360"
proof -
  obtain z a where za: "zenith_and_azimuth lat (solar_declination (get_day_of_year dt))
      (hour_angle (calculate_solar_time dt lon utc)) = Inr (z, a)"
    using zenith_and_azimuth_Inr by blast
  have "cos (radians (solar_declination (get_day_of_year dt))) \<noteq> 0"
    using cos_declination_pos[of "get_day_of_year dt"] by simp
  then have "0 \<le> a \<and> a < 360"
    using hour_angle_range[of dt lon utc] za azimuth_range by blast
  moreover have "0 \<le> z \<and> z \<le> 180" using za by (rule zenith_range)
  ultimately show ?thesis
    using za assms by (auto simp: get_target_angles_def Let_def)
qed

lemma total_seconds_plus_minutes:
  "total_seconds_between (plus_minutes s a) (plus_minutes s b) = 60 * (real a - real b)"
proof -
  have "int (a div 60) * 3600 + int (a mod 60) * 60 = 60 * int a" for a :: nat
  proof -
    have "int a = int (60 * (a div 60) + a mod 60)" by simp
    also have "\<dots> = 60 * int (a div 60) + int (a mod 60)"
      by (simp only: of_nat_add of_nat_mult of_nat_numeral)
    finally show ?thesis by simp
  qed
  then show ?thesis
    by (simp add: total_seconds_between_def toordinal_def plus_minutes_def algebra_simps)
qed

lemma incidence_le_one: "max 0 (cos x * cos y) \<le> (1::real)"
proof -
  have "\<bar>cos x * cos y\<bar> \<le> 1 * 1"
    unfolding abs_mult by (intro mult_mono) simp_all
  then show ?thesis by (simp add: abs_le_iff)
qed

lemma temperature_read_in_set:
  "temps \<noteq> [] \<Longrightarrow> (if h < length temps then temps ! h else last temps) \<in> set temps"
  by simp

lemma tracking_tick:
  assumes temps: "temps \<noteq> []"
    and nw: "snow \<longrightarrow> (\<forall>t\<in>set temps. 2 \<le> t)"
    and loc: "latitude trk = lat" "longitude trk = lon" "utc_offset trk = utc"
    and due: "case last_update_time trk of None \<Rightarrow> True
              | Some t \<Rightarrow> 10 \<le> total_seconds_between (plus_minutes start m) t / 60"
  shows "\<exists>r trk'. simulate_tick start lat lon utc temps snow ft fa trk m = Inr (r, trk')
           \<and> Power_Fixed r \<le> Power_Dual r
           \<and> last_update_time trk' = Some (plus_minutes start m)
           \<and> latitude trk' = lat \<and> longitude trk' = lon \<and> utc_offset trk' = utc"
proof -
  let ?dt = "plus_minutes start m"
  let ?t = "if hour ?dt < length temps then temps ! hour ?dt else last temps"
  obtain g c trk' r where
    g: "get_target_angles ?dt lat lon utc = Inr g"
    and u: "update trk ?dt ?t snow 10 = Inr (c, trk')"
    and s: "simulate_tick start lat lon utc temps snow ft fa trk m = Inr (r, trk')"
    and zr: "Zenith r = opt_zenith g"
    and pd: "Power_Dual r = (if opt_zenith g < 90 then 1000 * cos (radians (opt_zenith g)) else 0)
        * max 0 (cos (radians (opt_tilt g - cmd_tilt c))
                 * cos (radians (opt_azimuth g - cmd_azimuth c)))"
    and pf: "Power_Fixed r = (if opt_zenith g < 90 then 1000 * cos (radians (opt_zenith g)) else 0)
        * max 0 (cos (radians (opt_tilt g - ft)) * cos (radians (opt_azimuth g - fa)))"
    by (rule simulate_tick_result[OF temps, of start m lat lon utc trk snow ft fa])
  define tn where "tn = ?t"
  have "tn \<in> set temps" unfolding tn_def using temps by (rule temperature_read_in_set)
  then have "\<not> (tn < 2 \<and> snow)" using nw by auto
  then have w: "(tn < 2 \<and> snow) = False" by simp
  have c: "case last_update_time trk of None \<Rightarrow> True
     | Some t \<Rightarrow> \<not> total_seconds_between ?dt t / 60 < of_int (if tn < 2 \<and> snow then 60 else 10)"
    unfolding w using due by (simp split: option.splits)
  have g': "get_target_angles ?dt (latitude trk) (longitude trk) (utc_offset trk) = Inr g"
    using g loc by simp
  have uc: "Inr (c, trk') = update trk ?dt tn snow 10" using u by (simp add: tn_def)
  have ce: "c = fst (projr (update trk ?dt tn snow 10))"
    and te: "trk' = snd (projr (update trk ?dt tn snow 10))"
    by (simp_all add: uc[symmetric])
  have ct: "cmd_tilt c = max 0 (min 90 (if opt_zenith g > 90 then 0 else opt_tilt g))"
    and ca: "cmd_azimuth c = py_fmod (if opt_zenith g > 90 then 180 else opt_azimuth g) 360"
    unfolding ce update_commit[OF c g'] w by simp_all
  have tr: "last_update_time trk' = Some ?dt" "latitude trk' = lat" "longitude trk' = lon"
      "utc_offset trk' = utc"
    unfolding te update_commit[OF c g'] using loc by simp_all
  have rg: "0 \<le> opt_zenith g" "0 \<le> opt_azimuth g" "opt_azimuth g < 360"
    using target_angles_ranges[OF g] by simp_all
  have tz: "opt_tilt g = opt_zenith g" using g by (rule opt_zenith_eq)
  have "Power_Fixed r \<le> Power_Dual r"
  proof (cases "opt_zenith g < 90")
    case False
    then show ?thesis by (simp add: pd pf)
  next
    case True
    then have "cmd_tilt c = opt_tilt g" using ct rg tz by simp
    moreover have "cmd_azimuth c = opt_azimuth g" using ca rg True by (simp add: py_fmod_id)
    ultimately have d: "Power_Dual r = 1000 * cos (radians (opt_zenith g))"
      using True by (simp add: pd radians_def)
    have "0 < cos (radians (opt_zenith g))"
      using True cos_opt_zenith[OF g] opt_zenith_lt_90_iff[OF g] by simp
    then have "1000 * cos (radians (opt_zenith g))
         * max 0 (cos (radians (opt_tilt g - ft)) * cos (radians (opt_azimuth g - fa)))
         \<le> 1000 * cos (radians (opt_zenith g)) * 1"
      by (intro mult_left_mono incidence_le_one) simp
    then show ?thesis using True by (simp add: d pf)
  qed
  then show ?thesis using s tr by blast
qed

lemma tracking_loop:
  assumes temps: "temps \<noteq> []"
    and nw: "snow \<longrightarrow> (\<forall>t\<in>set temps. 2 \<le> t)"
  shows "sorted_wrt (\<lambda>a b. a + 10 \<le> b) ms \<Longrightarrow>
    latitude trk = lat \<Longrightarrow> longitude trk = lon \<Longrightarrow> utc_offset trk = utc \<Longrightarrow>
    (case last_update_time trk of None \<Rightarrow> True
     | Some t \<Rightarrow> \<forall>m\<in>set ms. 10 \<le> total_seconds_between (plus_minutes start m) t / 60) \<Longrightarrow>
    \<exists>rs. simulate_loop start lat lon utc temps snow ft fa ms trk recs = Inr (recs @ rs)
         \<and> (\<forall>r\<in>set rs. Power_Fixed r \<le> Power_Dual r)"
proof (induction ms arbitrary: trk recs)
  case Nil
  then show ?case by simp
next
  case (Cons m ms)
  have due: "case last_update_time trk of None \<Rightarrow> True
              | Some t \<Rightarrow> 10 \<le> total_seconds_between (plus_minutes start m) t / 60"
    using Cons.prems(5) by (auto split: option.splits)
  obtain r trk' where t: "simulate_tick start lat lon utc temps snow ft fa trk m = Inr (r, trk')"
    and p: "Power_Fixed r \<le> Power_Dual r"
    and l: "last_update_time trk' = Some (plus_minutes start m)"
    and loc: "latitude trk' = lat" "longitude trk' = lon" "utc_offset trk' = utc"
    using tracking_tick[OF temps nw Cons.prems(2,3,4) due] by blast
  have srt: "sorted_wrt (\<lambda>a b. a + 10 \<le> b) ms" and gap: "\<forall>m'\<in>set ms. m + 10 \<le> m'"
    using Cons.prems(1) by simp_all
  have nxt: "case last_update_time trk' of None \<Rightarrow> True
     | Some t \<Rightarrow> \<forall>m'\<in>set ms. 10 \<le> total_seconds_between (plus_minutes start m') t / 60"
  proof -
    have "10 \<le> total_seconds_between (plus_minutes start m') (plus_minutes start m) / 60"
      if "m' \<in> set ms" for m'
    proof -
      have "m + 10 \<le> m'" using gap that by blast
      then have "real m + 10 \<le> real m'" by linarith
      then show ?thesis by (simp add: total_seconds_plus_minutes)
    qed
    then show ?thesis by (simp add: l)
  qed
  obtain rs where rs: "simulate_loop start lat lon utc temps snow ft fa ms trk' ((recs @ [r])) = Inr ((recs @ [r]) @ rs)"
    and prs: "\<forall>r\<in>set rs. Power_Fixed r \<le> Power_Dual r"
    using Cons.IH[OF srt loc nxt] by blast
  have "simulate_loop start lat lon utc temps snow ft fa (m # ms) trk recs = Inr (recs @ (r # rs))"
    using t rs by simp
  moreover have "\<forall>x\<in>set (r # rs). Power_Fixed x \<le> Power_Dual x" using p prs by simp
  ultimately show ?case by blast
qed

lemma tick_minutes_spaced: "sorted_wrt (\<lambda>a b. a + 10 \<le> b) tick_minutes"
proof -
  have "sorted_wrt (<) [0..<144]" by (rule sorted_wrt_upt)
  then have "sorted_wrt (\<lambda>x y. 10 * x + 10 \<le> 10 * y) [0..<144]"
    by (rule sorted_wrt_mono_rel[rotated]) auto
  then show ?thesis by (simp add: tick_minutes_def sorted_wrt_map)
qed

lemma tilt_compare:
  assumes z: "0 \<le> z" "z \<le> 180" and c: "sqrt 2 / 2 < cos (radians z)"
    and d: "65 \<le> d" "d \<le> 90"
  shows "cos (radians (z - d)) < cos (radians (z - 30))" and "0 < cos (radians (z - 30))"
proof -
  define t where "t = radians z"
  define rd where "rd = radians d"
  have t0: "0 \<le> t" "t \<le> pi" using z by (simp_all add: t_def radians_def)
  have "cos (pi / 4) < cos t" using c by (simp add: cos_45 t_def)
  then have t1: "t < pi / 4"
    using cos_mono_less_eq[of "pi / 4" t] t0 by simp
  have rd: "65 * pi / 180 \<le> rd" "rd \<le> pi / 2" using d by (simp_all add: rd_def radians_def)
  have e1: "radians (z - d) = - (rd - t)" by (simp add: t_def rd_def radians_def field_simps)
  have e2: "radians (z - 30) = t - pi / 6" by (simp add: t_def radians_def field_simps)
  have y: "0 \<le> \<bar>t - pi / 6\<bar>" by simp
  have lt: "\<bar>t - pi / 6\<bar> < rd - t" using t0 t1 rd pi_gt_zero by (simp add: abs_if)
  have le: "rd - t \<le> pi" using t0 rd pi_gt_zero by linarith
  have "cos (rd - t) < cos \<bar>t - pi / 6\<bar>" using y lt le by (rule cos_monotone_0_pi)
  then show "cos (radians (z - d)) < cos (radians (z - 30))"
    unfolding e1 e2 by (simp only: cos_minus cos_abs_real)
  have "- (pi / 2) < t - pi / 6" "t - pi / 6 < pi / 2" using t0 t1 pi_gt_zero by linarith+
  then show "0 < cos (radians (z - 30))" unfolding e2 by (rule cos_gt_zero_pi)
qed

lemma tilt_nonneg:
  assumes "0 \<le> z" "z \<le> 90" "0 \<le> d" "d \<le> 90"
  shows "0 \<le> cos (radians (z - d))"
proof -
  have "- 90 \<le> z - d" "z - d \<le> 90" using assms by linarith+
  then have "(- 90) * pi \<le> (z - d) * pi" "(z - d) * pi \<le> 90 * pi"
    by (intro mult_right_mono, simp, simp)+
  then have "- (pi / 2) \<le> radians (z - d)" "radians (z - d) \<le> pi / 2"
    by (simp_all add: radians_def)
  then show ?thesis by (rule cos_ge_zero)
qed

lemma sum_list_strict_mono:
  fixes f g :: "'a \<Rightarrow> real"
  assumes "\<forall>x\<in>set xs. f x \<le> g x" and "\<exists>x\<in>set xs. f x < g x"
  shows "sum_list (map f xs) < sum_list (map g xs)"
  using assms
proof (induction xs)
  case Nil
  then show ?case by simp
next
  case (Cons a xs)
  have le: "sum_list (map f xs) \<le> sum_list (map g xs)"
    using Cons.prems(1) by (intro sum_list_mono) simp
  show ?case
  proof (cases "f a < g a")
    case True
    then show ?thesis using le by simp
  next
    case False
    then have "\<exists>x\<in>set xs. f x < g x" using Cons.prems(2) by auto
    then have "sum_list (map f xs) < sum_list (map g xs)" using Cons.IH Cons.prems(1) by simp
    moreover have "f a \<le> g a" using Cons.prems(1) by simp
    ultimately show ?thesis by simp
  qed
qed

lemma locked_power:
  assumes g: "get_target_angles (plus_minutes (start_of_day noon_2025_06_21) m) 30 (-90) (-6) = Inr g"
    and d: "65 \<le> d" "d \<le> 90"
  shows "(if opt_zenith g < 90 then 1000 * cos (radians (opt_zenith g)) else 0)
           * max 0 (cos (radians (opt_tilt g - d)) * cos (radians (opt_azimuth g - 180)))
         \<le> (if opt_zenith g < 90 then 1000 * cos (radians (opt_zenith g)) else 0)
           * max 0 (cos (radians (opt_tilt g - 30)) * cos (radians (opt_azimuth g - 180)))"
    and "m = 720 \<Longrightarrow>
         opt_zenith g < 90 \<and>
         (if opt_zenith g < 90 then 1000 * cos (radians (opt_zenith g)) else 0)
           * max 0 (cos (radians (opt_tilt g - d)) * cos (radians (opt_azimuth g - 180)))
         < (if opt_zenith g < 90 then 1000 * cos (radians (opt_zenith g)) else 0)
           * max 0 (cos (radians (opt_tilt g - 30)) * cos (radians (opt_azimuth g - 180)))"
proof -
  let ?dt = "plus_minutes (start_of_day noon_2025_06_21) m"
  define z where "z = opt_zenith g"
  define q where "q = cos (radians (opt_azimuth g - 180))"
  define cd where "cd = cos (radians (z - d))"
  define c30 where "c30 = cos (radians (z - 30))"
  define irr where "irr = (if z < 90 then 1000 * cos (radians z) else 0)"
  have tz: "opt_tilt g = z" unfolding z_def using g by (rule opt_zenith_eq)
  have rg: "0 \<le> z" "z \<le> 180" unfolding z_def using target_angles_ranges[OF g] by simp_all
  have cz: "cos (radians z) = cos_theta_z_at ?dt 30 (-90) (-6)"
    unfolding z_def using g by (rule cos_opt_zenith)
  have day: "z < 90 \<longleftrightarrow> 0 < cos (radians z)"
    using opt_zenith_lt_90_iff[OF g] cz by (simp add: z_def)
  have irr0: "0 \<le> irr" using day by (simp add: irr_def)
  have south: "cd < c30 \<and> 0 < c30" if "0 < q"
  proof -
    have "cos_gamma_numerator_at ?dt 30 (-90) (-6) < 0"
      using g that unfolding q_def by (rule sun_in_south_imp)
    then have "sqrt 2 / 2 < cos (radians z)" unfolding cz by (rule june_south_high)
    then show ?thesis unfolding cd_def c30_def using tilt_compare[OF rg _ d] by blast
  qed
  have le: "max 0 (cd * q) \<le> max 0 (c30 * q)" if z90: "z < 90"
  proof (cases "0 < q")
    case True
    then have "cd * q \<le> c30 * q" using south by (intro mult_right_mono) simp_all
    then show ?thesis by (simp add: max_def)
  next
    case False
    have "0 \<le> cd" unfolding cd_def using rg z90 d by (intro tilt_nonneg) simp_all
    then have "cd * q \<le> 0" using False by (simp add: mult_nonneg_nonpos)
    then show ?thesis by (simp add: max_def)
  qed
  have "irr * max 0 (cd * q) \<le> irr * max 0 (c30 * q)"
  proof (cases "z < 90")
    case True
    then show ?thesis using le irr0 by (intro mult_left_mono) simp_all
  next
    case False
    then show ?thesis by (simp add: irr_def)
  qed
  then show "(if opt_zenith g < 90 then 1000 * cos (radians (opt_zenith g)) else 0)
           * max 0 (cos (radians (opt_tilt g - d)) * cos (radians (opt_azimuth g - 180)))
         \<le> (if opt_zenith g < 90 then 1000 * cos (radians (opt_zenith g)) else 0)
           * max 0 (cos (radians (opt_tilt g - 30)) * cos (radians (opt_azimuth g - 180)))"
    unfolding tz irr_def cd_def c30_def q_def z_def[symmetric] .
  show "opt_zenith g < 90 \<and>
         (if opt_zenith g < 90 then 1000 * cos (radians (opt_zenith g)) else 0)
           * max 0 (cos (radians (opt_tilt g - d)) * cos (radians (opt_azimuth g - 180)))
         < (if opt_zenith g < 90 then 1000 * cos (radians (opt_zenith g)) else 0)
           * max 0 (cos (radians (opt_tilt g - 30)) * cos (radians (opt_azimuth g - 180)))"
    if m: "m = 720"
  proof -
    have z90: "z < 90" unfolding day cz m by (rule june_noon_geometry)
    have qpos: "0 < q" unfolding q_def using g june_noon_geometry(2) unfolding m
      by (rule sun_in_south_if)
    have s: "cd < c30" "0 < c30" using south[OF qpos] by simp_all
    have "cd * q < c30 * q" using s qpos by simp
    moreover have "0 < c30 * q" using s qpos by simp
    ultimately have "max 0 (cd * q) < max 0 (c30 * q)" by (simp add: max_def)
    moreover have "0 < irr" using z90 day by (simp add: irr_def)
    ultimately have "irr * max 0 (cd * q) < irr * max 0 (c30 * q)" by simp
    then show ?thesis using z90
      unfolding tz irr_def cd_def c30_def q_def z_def[symmetric] by blast
  qed
qed

lemma cold_day_temperature:
  "(if h < length cold_day_temps then cold_day_temps ! h else last cold_day_temps) = - 5"
  by (simp add: cold_day_temps_def)

lemma cold_day_temps_nonempty: "cold_day_temps \<noteq> []"
  by (simp add: cold_day_temps_def)

lemma winter_tick:
  assumes loc: "latitude trk = 30" "longitude trk = - 90" "utc_offset trk = - 6"
    and lk: "(current_azimuth trk = 180 \<and> 65 \<le> current_tilt trk \<and> current_tilt trk \<le> 90)
             \<or> (last_update_time trk = None \<and> m = 0)"
  shows "\<exists>r trk'. simulate_tick (start_of_day noon_2025_06_21) 30 (-90) (-6) cold_day_temps True
              30 180 trk m = Inr (r, trk')
           \<and> latitude trk' = 30 \<and> longitude trk' = - 90 \<and> utc_offset trk' = - 6
           \<and> current_azimuth trk' = 180 \<and> 65 \<le> current_tilt trk' \<and> current_tilt trk' \<le> 90
           \<and> Power_Dual r \<le> Power_Fixed r
           \<and> (m = 720 \<longrightarrow> Power_Dual r < Power_Fixed r \<and> Zenith r < 90)"
proof -
  let ?dt = "plus_minutes (start_of_day noon_2025_06_21) m"
  obtain g c trk' r where
    g: "get_target_angles ?dt 30 (-90) (-6) = Inr g"
    and u: "update trk ?dt (if hour ?dt < length cold_day_temps
              then cold_day_temps ! hour ?dt else last cold_day_temps) True 10 = Inr (c, trk')"
    and s: "simulate_tick (start_of_day noon_2025_06_21) 30 (-90) (-6) cold_day_temps True
              30 180 trk m = Inr (r, trk')"
    and zr: "Zenith r = opt_zenith g"
    and pd: "Power_Dual r = (if opt_zenith g < 90 then 1000 * cos (radians (opt_zenith g)) else 0)
        * max 0 (cos (radians (opt_tilt g - cmd_tilt c))
                 * cos (radians (opt_azimuth g - cmd_azimuth c)))"
    and pf: "Power_Fixed r = (if opt_zenith g < 90 then 1000 * cos (radians (opt_zenith g)) else 0)
        * max 0 (cos (radians (opt_tilt g - 30)) * cos (radians (opt_azimuth g - 180)))"
    by (rule simulate_tick_result[OF cold_day_temps_nonempty,
        of "start_of_day noon_2025_06_21" m 30 "-90" "-6" trk True 30 180])
  have u': "update trk ?dt (- 5) True 10 = Inr (c, trk')"
    using u unfolding cold_day_temperature .
  consider (skip) t where "last_update_time trk = Some t"
      "total_seconds_between ?dt t / 60 < of_int (if (- 5 :: real) < 2 \<and> True then 60 else 10)"
    | (commit) g' where "case last_update_time trk of None \<Rightarrow> True
           | Some t \<Rightarrow> \<not> total_seconds_between ?dt t / 60
                 < of_int (if (- 5 :: real) < 2 \<and> True then 60 else 10)"
      "get_target_angles ?dt (latitude trk) (longitude trk) (utc_offset trk) = Inr g'"
    by (rule update_cases)
  then have st: "cmd_azimuth c = 180 \<and> 65 \<le> cmd_tilt c \<and> cmd_tilt c \<le> 90
      \<and> latitude trk' = 30 \<and> longitude trk' = - 90 \<and> utc_offset trk' = - 6
      \<and> current_azimuth trk' = 180 \<and> current_tilt trk' = cmd_tilt c"
  proof cases
    case (skip t)
    then have "last_update_time trk \<noteq> None" by simp
    then have "current_azimuth trk = 180 \<and> 65 \<le> current_tilt trk \<and> current_tilt trk \<le> 90"
      using lk by auto
    then show ?thesis using u' update_skip[OF skip] loc by auto
  next
    case (commit g')
    then have gg: "g' = g" using g loc by simp
    note uc = update_commit[OF commit]
    show ?thesis
    proof (cases "90 < opt_zenith g")
      case True
      then show ?thesis using u' uc gg loc by (auto simp: py_fmod_180)
    next
      case False
      have "m \<noteq> 0"
      proof
        assume "m = 0"
        then have "90 < opt_zenith g"
          using opt_zenith_gt_90_iff[OF g] june_midnight_dark by simp
        then show False using False by simp
      qed
      then have "current_azimuth trk = 180 \<and> 65 \<le> current_tilt trk \<and> current_tilt trk \<le> 90"
        using lk by auto
      then show ?thesis using u' uc gg loc False by (auto simp: py_fmod_180)
    qed
  qed
  then have az: "cmd_azimuth c = 180" and d: "65 \<le> cmd_tilt c" "cmd_tilt c \<le> 90" by simp_all
  have "Power_Dual r \<le> Power_Fixed r"
    unfolding pd pf az by (rule locked_power(1)[OF g d])
  moreover have "Power_Dual r < Power_Fixed r \<and> Zenith r < 90" if "m = 720"
    using locked_power(2)[OF g d that] unfolding pd pf az zr by blast
  ultimately show ?thesis using s st by auto
qed

lemma winter_loop:
  "latitude trk = 30 \<Longrightarrow> longitude trk = - 90 \<Longrightarrow> utc_offset trk = - 6 \<Longrightarrow>
   current_azimuth trk = 180 \<Longrightarrow> 65 \<le> current_tilt trk \<Longrightarrow> current_tilt trk \<le> 90 \<Longrightarrow>
   \<exists>rs. simulate_loop (start_of_day noon_2025_06_21) 30 (-90) (-6) cold_day_temps True 30 180
           ms trk recs = Inr (recs @ rs)
        \<and> (\<forall>r\<in>set rs. Power_Dual r \<le> Power_Fixed r)
        \<and> (720 \<in> set ms \<longrightarrow> (\<exists>r\<in>set rs. Power_Dual r < Power_Fixed r \<and> Zenith r < 90))"
proof (induction ms arbitrary: trk recs)
  case Nil
  then show ?case by simp
next
  case (Cons m ms)
  have lk: "(current_azimuth trk = 180 \<and> 65 \<le> current_tilt trk \<and> current_tilt trk \<le> 90)
             \<or> (last_update_time trk = None \<and> m = 0)"
    using Cons.prems by simp
  obtain r trk' where t: "simulate_tick (start_of_day noon_2025_06_21) 30 (-90) (-6)
        cold_day_temps True 30 180 trk m = Inr (r, trk')"
    and inv: "latitude trk' = 30" "longitude trk' = - 90" "utc_offset trk' = - 6"
      "current_azimuth trk' = 180" "65 \<le> current_tilt trk'" "current_tilt trk' \<le> 90"
    and p: "Power_Dual r \<le> Power_Fixed r"
    and q: "m = 720 \<longrightarrow> Power_Dual r < Power_Fixed r \<and> Zenith r < 90"
    using winter_tick[OF Cons.prems(1,2,3) lk] by blast
  obtain rs where rs: "simulate_loop (start_of_day noon_2025_06_21) 30 (-90) (-6) cold_day_temps
        True 30 180 ms trk' (recs @ [r]) = Inr ((recs @ [r]) @ rs)"
    and prs: "\<forall>r\<in>set rs. Power_Dual r \<le> Power_Fixed r"
    and qrs: "720 \<in> set ms \<longrightarrow> (\<exists>r\<in>set rs. Power_Dual r < Power_Fixed r \<and> Zenith r < 90)"
    using Cons.IH[OF inv] by blast
  have "simulate_loop (start_of_day noon_2025_06_21) 30 (-90) (-6) cold_day_temps True 30 180
          (m # ms) trk recs = Inr (recs @ (r # rs))"
    using t rs by simp
  moreover have "\<forall>x\<in>set (r # rs). Power_Dual x \<le> Power_Fixed x" using p prs by simp
  moreover have "720 \<in> set (m # ms) \<longrightarrow>
      (\<exists>x\<in>set (r # rs). Power_Dual x < Power_Fixed x \<and> Zenith x < 90)"
    using q qrs by auto
  ultimately show ?case by blast
qed

lemma noon_is_a_tick: "720 \<in> set (map (\<lambda>k. 10 * k) [1..<144])"
proof -
  have "(72::nat) \<in> set [1..<144]" by simp
  then have "10 * 72 \<in> (\<lambda>k. 10 * k) ` set [1..<144]" by (rule imageI)
  then show ?thesis by simp
qed

lemma winter_day_run:
  "\<exists>rs. simulate_day noon_2025_06_21 30 (-90) (-6) cold_day_temps True 30 180 = Inr rs
      \<and> (\<forall>r\<in>set rs. Power_Dual r \<le> Power_Fixed r)
      \<and> (\<exists>r\<in>set rs. Power_Dual r < Power_Fixed r \<and> Zenith r < 90)"
proof -
  let ?s = "start_of_day noon_2025_06_21"
  let ?t0 = "new_tracker 30 (-90) (-6)"
  have loc: "latitude ?t0 = 30" "longitude ?t0 = - 90" "utc_offset ?t0 = - 6"
    by (simp_all add: new_tracker_def)
  have lk: "(current_azimuth ?t0 = 180 \<and> 65 \<le> current_tilt ?t0 \<and> current_tilt ?t0 \<le> 90)
             \<or> (last_update_time ?t0 = None \<and> (0::nat) = 0)"
    by (simp add: new_tracker_def)
  obtain r trk' where t: "simulate_tick ?s 30 (-90) (-6) cold_day_temps True 30 180 ?t0 0
        = Inr (r, trk')"
    and inv: "latitude trk' = 30" "longitude trk' = - 90" "utc_offset trk' = - 6"
      "current_azimuth trk' = 180" "65 \<le> current_tilt trk'" "current_tilt trk' \<le> 90"
    and p: "Power_Dual r \<le> Power_Fixed r"
    using winter_tick[OF loc lk] by blast
  obtain rs where rs: "simulate_loop ?s 30 (-90) (-6) cold_day_temps True 30 180
        (map (\<lambda>k. 10 * k) [1..<144]) trk' ([] @ [r]) = Inr (([] @ [r]) @ rs)"
    and prs: "\<forall>r\<in>set rs. Power_Dual r \<le> Power_Fixed r"
    and qrs: "\<exists>r\<in>set rs. Power_Dual r < Power_Fixed r \<and> Zenith r < 90"
    using winter_loop[OF inv, of "map (\<lambda>k. 10 * k) [1..<144]" "[] @ [r]"] noon_is_a_tick
    by blast
  have "simulate_day noon_2025_06_21 30 (-90) (-6) cold_day_temps True 30 180 = Inr (r # rs)"
    using t rs by (simp add: simulate_day_def tick_minutes_Cons)
  moreover have "\<forall>x\<in>set (r # rs). Power_Dual x \<le> Power_Fixed x" using p prs by simp
  moreover have "\<exists>x\<in>set (r # rs). Power_Dual x < Power_Fixed x \<and> Zenith x < 90"
    using qrs by auto
  ultimately show ?thesis by blast
qed

section \<open>The claims\<close>

text \<open>
  C3: \<open>optimize_movement\<close> approves the move exactly when the energy gain (energy when
  moving minus energy when staying) is strictly greater than the actuator energy cost of
  the controller (2.5 Wh by default); a gain equal to the cost is rejected, and every
  rejection returns the current tilt and azimuth unchanged.
\<close>

theorem optimize_movement_threshold:
  "(move_approved (optimize_movement self ct tt ca ta dt temp cc z area eff)
      \<longleftrightarrow> energy_gain self ct tt ca ta dt temp cc z area eff > motor_energy_cost self)
   \<and> (energy_gain self ct tt ca ta dt temp cc z area eff = motor_energy_cost self
        \<longrightarrow> \<not> move_approved (optimize_movement self ct tt ca ta dt temp cc z area eff))
   \<and> (\<not> move_approved (optimize_movement self ct tt ca ta dt temp cc z area eff)
        \<longrightarrow> final_tilt (optimize_movement self ct tt ca ta dt temp cc z area eff) = ct
          \<and> final_azimuth (optimize_movement self ct tt ca ta dt temp cc z area eff) = ca)
   \<and> energy_gain self ct tt ca ta dt temp cc z area eff
       = expected_energy_moving_wh (predicted_irradiance_of self dt temp cc z) area eff
         - expected_energy_staying_wh (predicted_irradiance_of self dt temp cc z)
             ct tt ca ta area eff
   \<and> motor_energy_cost (new_controller p default_motor_energy_cost_wh) = 2.5"
  by (auto simp: optimize_movement_def energy_gain_def Let_def new_controller_def
        default_motor_energy_cost_wh_def)

theorem optimize_movement_threshold_witness:
  "energy_gain (new_controller (\<lambda>h t c z. 37.5) default_motor_energy_cost_wh)
      0 90 180 180 noon_2025_01_15 20 0 30 default_area default_efficiency
     = motor_energy_cost (new_controller (\<lambda>h t c z. 37.5) default_motor_energy_cost_wh)
   \<and> \<not> move_approved (optimize_movement (new_controller (\<lambda>h t c z. 37.5) default_motor_energy_cost_wh)
      0 90 180 180 noon_2025_01_15 20 0 30 default_area default_efficiency)
   \<and> final_tilt (optimize_movement (new_controller (\<lambda>h t c z. 37.5) default_motor_energy_cost_wh)
      0 90 180 180 noon_2025_01_15 20 0 30 default_area default_efficiency) = 0
   \<and> final_azimuth (optimize_movement (new_controller (\<lambda>h t c z. 37.5) default_motor_energy_cost_wh)
      0 90 180 180 noon_2025_01_15 20 0 30 default_area default_efficiency) = 180"
  using optimize_movement_threshold [of "new_controller (\<lambda>h t c z. 37.5) default_motor_energy_cost_wh"
      0 90 180 180 noon_2025_01_15 20 0 30 default_area default_efficiency "\<lambda>h t c z. 37.5"]
    gain_at_boundary
  by (simp add: new_controller_def default_motor_energy_cost_wh_def)

text \<open>
  C4, as stated, fails: the expected powers are scaled by the \<open>area\<close> and \<open>efficiency\<close>
  parameters (defaults 2.0 and 0.2). With a predicted irradiance of 30 the energy when
  moving is 2 Wh, not 30 * (10/60) = 5 Wh, and a move that the unscaled formula would
  approve against the 2.5 Wh cost is rejected.
\<close>

theorem energy_scaling_counterexample:
  "expected_energy_moving_wh 30 default_area default_efficiency = 2
   \<and> expected_energy_moving_wh 30 default_area default_efficiency \<noteq> 30 * (10 / 60)
   \<and> 30 * (10 / 60) - 30 * max 0 (cos (radians (90 - 0)) * cos (radians (180 - 180))) * (10 / 60)
        > default_motor_energy_cost_wh
   \<and> \<not> move_approved (optimize_movement (new_controller (\<lambda>h t c z. 30) default_motor_energy_cost_wh)
        0 90 180 180 noon_2025_01_15 20 0 30 default_area default_efficiency)"
  by (simp add: optimize_movement_def energy_gain_def expected_energy_moving_wh_def
      expected_energy_staying_wh_def predicted_irradiance_of_def new_controller_def
      default_area_def default_efficiency_def default_motor_energy_cost_wh_def
      radians_def Let_def)

text \<open>
  C4, amended: the expected energy when moving is
  \<open>predicted_irradiance * area * efficiency * (10/60)\<close>, the expected energy when staying is
  \<open>predicted_irradiance * area * efficiency * max(0, cos(\<Delta>tilt) * cos(\<Delta>azimuth)) * (10/60)\<close>,
  and the decision compares their difference with the actuator cost.
\<close>

theorem expected_energy_formulas:
  "expected_energy_moving_wh irr area eff = irr * area * eff * (10 / 60)
   \<and> expected_energy_staying_wh irr ct tt ca ta area eff
       = irr * area * eff * max 0 (cos (radians (tt - ct)) * cos (radians (ta - ca))) * (10 / 60)
   \<and> (move_approved (optimize_movement self ct tt ca ta dt temp cc z area eff)
       \<longleftrightarrow> predicted_irradiance_of self dt temp cc z * area * eff * (10 / 60)
           - predicted_irradiance_of self dt temp cc z * area * eff
               * max 0 (cos (radians (tt - ct)) * cos (radians (ta - ca))) * (10 / 60)
           > motor_energy_cost self)"
  by (auto simp: optimize_movement_def energy_gain_def expected_energy_moving_wh_def
      expected_energy_staying_wh_def Let_def)

text \<open>
  C10: the first call of \<open>update\<close> on a freshly constructed tracker never skips, whatever
  the minimum update interval: \<open>last_update_time\<close> is \<open>None\<close>, so the interval gate is not
  applied. The call returns without error and commits the new angles computed from the
  solar position of the timestamp: the stow angles when the zenith is above 90 degrees,
  otherwise the clamped optimal tilt (at least 65 degrees in winter mode) and the
  optimal azimuth (the initial azimuth 0 in winter mode), with the timestamp of the call.
\<close>

theorem first_update_commits:
  "\<exists>g. get_target_angles dt lat lon utc = Inr g
     \<and> update (new_tracker lat lon utc) dt temp snow iv =
         Inr (\<lparr>cmd_action = (if opt_zenith g > 90 then Stow
                              else if temp < 2 \<and> snow then Winter_optimized else Track),
               cmd_reason = None,
               cmd_tilt = max 0 (min 90 (if opt_zenith g > 90
                                          then (if temp < 2 \<and> snow then 65 else 0)
                                          else if temp < 2 \<and> snow then max (opt_zenith g) 65
                                          else opt_zenith g)),
               cmd_azimuth = py_fmod (if opt_zenith g > 90 then 180
                                      else if temp < 2 \<and> snow then 0 else opt_azimuth g) 360,
               cmd_winter_mode = (temp < 2 \<and> snow),
               cmd_zenith = Some (opt_zenith g),
               cmd_solar_time = Some (opt_solar_time g)\<rparr>,
              \<lparr>latitude = lat, longitude = lon, utc_offset = utc,
               current_tilt = max 0 (min 90 (if opt_zenith g > 90
                                              then (if temp < 2 \<and> snow then 65 else 0)
                                              else if temp < 2 \<and> snow then max (opt_zenith g) 65
                                              else opt_zenith g)),
               current_azimuth = py_fmod (if opt_zenith g > 90 then 180
                                          else if temp < 2 \<and> snow then 0 else opt_azimuth g) 360,
               last_update_time = Some dt,
               is_winter_mode_active = (temp < 2 \<and> snow)\<rparr>)
     \<and> cmd_action (fst (projr (update (new_tracker lat lon utc) dt temp snow iv))) \<noteq> Skip"
proof -
  obtain g where g: "get_target_angles dt lat lon utc = Inr g" and t: "opt_tilt g = opt_zenith g"
    using get_target_angles_Inr by blast
  have g': "get_target_angles dt (latitude (new_tracker lat lon utc))
      (longitude (new_tracker lat lon utc)) (utc_offset (new_tracker lat lon utc)) = Inr g"
    using g by (simp add: new_tracker_def)
  have c: "case last_update_time (new_tracker lat lon utc) of None \<Rightarrow> True
     | Some t \<Rightarrow> \<not> total_seconds_between dt t / 60 < of_int (if temp < 2 \<and> snow then 60 else iv)"
    by (simp add: new_tracker_def)
  show ?thesis
    using g unfolding update_commit[OF c g'] by (simp add: new_tracker_def t)
qed

text \<open>
  C1, as stated, fails at night: a committed update at a zenith above 90 degrees sets the
  azimuth to the stow value 180 also in winter mode. A new tracker (azimuth 0) at the
  north pole at noon on 2025-01-15, at -5 degrees with snow, commits azimuth 180.
\<close>

theorem winter_night_azimuth_counterexample:
  "\<not> isl (update (new_tracker 90 0 0) noon_2025_01_15 (-5) True 10)
   \<and> cmd_action (fst (projr (update (new_tracker 90 0 0) noon_2025_01_15 (-5) True 10))) \<noteq> Skip
   \<and> cmd_winter_mode (fst (projr (update (new_tracker 90 0 0) noon_2025_01_15 (-5) True 10)))
   \<and> current_azimuth (new_tracker 90 0 0) = 0
   \<and> cmd_azimuth (fst (projr (update (new_tracker 90 0 0) noon_2025_01_15 (-5) True 10))) = 180"
proof -
  obtain g where g: "get_target_angles noon_2025_01_15 90 0 0 = Inr g"
    using get_target_angles_Inr by blast
  have z: "90 < opt_zenith g" using g by (rule polar_night_january)
  have "update (new_tracker 90 0 0) noon_2025_01_15 (-5) True 10 =
      Inr (\<lparr>cmd_action = Stow, cmd_reason = None, cmd_tilt = 65, cmd_azimuth = 180,
            cmd_winter_mode = True, cmd_zenith = Some (opt_zenith g),
            cmd_solar_time = Some (opt_solar_time g)\<rparr>,
           (new_tracker 90 0 0)\<lparr>is_winter_mode_active := True, current_tilt := 65,
             current_azimuth := 180, last_update_time := Some noon_2025_01_15\<rparr>)"
    using update_commit[where s="new_tracker 90 0 0" and dt=noon_2025_01_15 and temp="-5"
        and snow=True and iv=10 and g=g] g z
    by (simp add: new_tracker_def py_fmod_180)
  then show ?thesis by (simp add: new_tracker_def)
qed

text \<open>
  C1, amended: for a tracker whose current azimuth is in [0, 360), a committed (not
  skipped) update in winter mode (temperature below 2.0 and snow detected) keeps the
  azimuth of before the call when the solar zenith is at most 90 degrees, and commits
  the stow azimuth 180 when the zenith is above 90 degrees.
\<close>

theorem winter_azimuth_frozen_by_day:
  assumes "update s dt temp snow iv = Inr (c, s')"
    and "cmd_action c \<noteq> Skip"
    and "temp < 2" and "snow"
    and "get_target_angles dt (latitude s) (longitude s) (utc_offset s) = Inr g"
    and "0 \<le> current_azimuth s" and "current_azimuth s < 360"
  shows "cmd_azimuth c = (if opt_zenith g > 90 then 180 else current_azimuth s)
         \<and> current_azimuth s' = cmd_azimuth c"
proof (cases rule: update_cases[of s dt temp snow iv])
  case (skip t)
  then show ?thesis using assms(1,2) update_skip[OF skip] by auto
next
  case (commit g')
  then have "g' = g" using assms(5) by simp
  then show ?thesis using assms(1,3,4,6,7) update_commit[OF commit] by (auto simp: py_fmod_180 py_fmod_id)
qed

theorem winter_azimuth_frozen_by_day_witness:
  "\<not> isl (update polar_tracker noon_2025_06_21 (-5) True 10)
   \<and> cmd_action (fst (projr (update polar_tracker noon_2025_06_21 (-5) True 10))) \<noteq> Skip
   \<and> current_azimuth polar_tracker = 135
   \<and> cmd_azimuth (fst (projr (update polar_tracker noon_2025_06_21 (-5) True 10))) = 135
   \<and> current_azimuth (snd (projr (update polar_tracker noon_2025_06_21 (-5) True 10))) = 135"
proof -
  obtain g where g: "get_target_angles noon_2025_06_21 (latitude polar_tracker)
      (longitude polar_tracker) (utc_offset polar_tracker) = Inr g"
    using get_target_angles_Inr by blast
  then have "get_target_angles noon_2025_06_21 90 0 0 = Inr g"
    by (simp add: polar_tracker_def new_tracker_def)
  then have z: "opt_zenith g < 90" by (rule polar_day_june)
  have n: "last_update_time polar_tracker = None" by (simp add: polar_tracker_def new_tracker_def)
  have a: "0 \<le> current_azimuth polar_tracker" "current_azimuth polar_tracker < 360"
    "current_azimuth polar_tracker = 135"
    by (simp_all add: polar_tracker_def new_tracker_def)
  note u = update_first_call[OF n g, of "-5" True 10]
  from winter_azimuth_frozen_by_day[OF u(3) u(2) _ _ g a(1,2)] u(1,2) z a(3)
  show ?thesis by simp
qed

text \<open>
  C2, as stated, fails: the winter flag is assigned before the interval gate, so a skipped
  call can change \<open>is_winter_mode_active\<close>. A tracker last updated at noon with the flag
  off, called five minutes later at -5 degrees with snow, skips and has the flag on.
\<close>

theorem skip_mutates_winter_flag_counterexample:
  "cmd_action (fst (projr (update tracked_at_noon (noon_2025_01_15\<lparr>minute := 5\<rparr>) (-5) True 10))) = Skip
   \<and> \<not> is_winter_mode_active tracked_at_noon
   \<and> is_winter_mode_active (snd (projr (update tracked_at_noon (noon_2025_01_15\<lparr>minute := 5\<rparr>) (-5) True 10)))
   \<and> snd (projr (update tracked_at_noon (noon_2025_01_15\<lparr>minute := 5\<rparr>) (-5) True 10)) \<noteq> tracked_at_noon"
proof -
  have l: "last_update_time tracked_at_noon = Some noon_2025_01_15"
    by (simp add: tracked_at_noon_def)
  have d: "total_seconds_between (noon_2025_01_15\<lparr>minute := 5\<rparr>) noon_2025_01_15 / 60
        < of_int (if (-5::real) < 2 \<and> True then 60 else 10)"
    by (simp add: five_minutes_after_noon)
  have n: "\<not> is_winter_mode_active tracked_at_noon" by (simp add: tracked_at_noon_def)
  have "is_winter_mode_active (tracked_at_noon\<lparr>is_winter_mode_active := True\<rparr>)" by simp
  then have "tracked_at_noon\<lparr>is_winter_mode_active := True\<rparr> \<noteq> tracked_at_noon"
    using n by metis
  then show ?thesis using update_skip[OF l d] n by simp
qed

text \<open>
  C2, amended: when the time since \<open>last_update_time\<close> is less than the effective interval
  (60 minutes in winter mode, the caller's interval otherwise), \<open>update\<close> returns the
  current tilt and azimuth with action \<open>Skip\<close>, and the only field of the tracker it
  changes is \<open>is_winter_mode_active\<close>, which is set to the winter condition of the call.
\<close>

theorem skip_keeps_angles:
  assumes "last_update_time s = Some t"
    and "total_seconds_between dt t / 60 < of_int (if temp < 2 \<and> snow then 60 else iv)"
  shows "\<exists>c. update s dt temp snow iv = Inr (c, s\<lparr>is_winter_mode_active := (temp < 2 \<and> snow)\<rparr>)
           \<and> cmd_action c = Skip \<and> cmd_tilt c = current_tilt s
           \<and> cmd_azimuth c = current_azimuth s \<and> cmd_winter_mode c = (temp < 2 \<and> snow)"
  using update_skip[OF assms] by simp

theorem skip_keeps_angles_witness:
  "\<not> isl (update tracked_at_noon (noon_2025_01_15\<lparr>minute := 5\<rparr>) (-5) True 10)
   \<and> snd (projr (update tracked_at_noon (noon_2025_01_15\<lparr>minute := 5\<rparr>) (-5) True 10))
       = tracked_at_noon\<lparr>is_winter_mode_active := True\<rparr>
   \<and> cmd_action (fst (projr (update tracked_at_noon (noon_2025_01_15\<lparr>minute := 5\<rparr>) (-5) True 10))) = Skip
   \<and> cmd_tilt (fst (projr (update tracked_at_noon (noon_2025_01_15\<lparr>minute := 5\<rparr>) (-5) True 10))) = 30
   \<and> cmd_azimuth (fst (projr (update tracked_at_noon (noon_2025_01_15\<lparr>minute := 5\<rparr>) (-5) True 10))) = 180"
proof -
  have l: "last_update_time tracked_at_noon = Some noon_2025_01_15"
    by (simp add: tracked_at_noon_def)
  have d: "total_seconds_between (noon_2025_01_15\<lparr>minute := 5\<rparr>) noon_2025_01_15 / 60
        < of_int (if (-5::real) < 2 \<and> True then 60 else 10)"
    by (simp add: five_minutes_after_noon)
  from skip_keeps_angles[OF l d] show ?thesis by (auto simp: tracked_at_noon_def)
qed

text \<open>
  C5: a committed (not skipped) update at a timestamp whose solar zenith is above 90
  degrees commits tilt 0 and azimuth 180 when winter mode is inactive, and tilt 65 when
  winter mode is active.
\<close>

theorem night_stow_angles:
  assumes "update s dt temp snow iv = Inr (c, s')"
    and "cmd_action c \<noteq> Skip"
    and "get_target_angles dt (latitude s) (longitude s) (utc_offset s) = Inr g"
    and "opt_zenith g > 90"
  shows "(if temp < 2 \<and> snow then cmd_tilt c = 65 else cmd_tilt c = 0 \<and> cmd_azimuth c = 180)
         \<and> current_tilt s' = cmd_tilt c \<and> current_azimuth s' = cmd_azimuth c"
proof (cases rule: update_cases[of s dt temp snow iv])
  case (skip t)
  then show ?thesis using assms(1,2) update_skip[OF skip] by auto
next
  case (commit g')
  then have "g' = g" using assms(3) by simp
  then show ?thesis using assms(1,4) update_commit[OF commit] by (auto simp: py_fmod_180)
qed

theorem night_stow_angles_witness:
  "\<not> isl (update (new_tracker 90 0 0) noon_2025_01_15 5 False 10)
   \<and> cmd_action (fst (projr (update (new_tracker 90 0 0) noon_2025_01_15 5 False 10))) \<noteq> Skip
   \<and> cmd_tilt (fst (projr (update (new_tracker 90 0 0) noon_2025_01_15 5 False 10))) = 0
   \<and> cmd_azimuth (fst (projr (update (new_tracker 90 0 0) noon_2025_01_15 5 False 10))) = 180"
proof -
  obtain g where g: "get_target_angles noon_2025_01_15 (latitude (new_tracker 90 0 0))
      (longitude (new_tracker 90 0 0)) (utc_offset (new_tracker 90 0 0)) = Inr g"
    using get_target_angles_Inr by blast
  then have "get_target_angles noon_2025_01_15 90 0 0 = Inr g" by (simp add: new_tracker_def)
  then have z: "90 < opt_zenith g" by (rule polar_night_january)
  have n: "last_update_time (new_tracker 90 0 0) = None" by (simp add: new_tracker_def)
  note u = update_first_call[OF n g, of 5 False 10]
  from night_stow_angles[OF u(3) u(2) g z] u(1,2) show ?thesis by simp
qed

text \<open>
  C7: in exact real arithmetic every call of \<open>get_target_angles\<close> returns without a domain
  error, with zenith in [0, 180], azimuth in [0, 360) and solar time in [0, 24): these are
  the lemmas \<open>get_target_angles_Inr\<close>, \<open>target_angles_ranges\<close> and \<open>solar_time_range\<close>. The
  two strict upper bounds are not properties of the program, which computes in binary
  floating point: \<open>x % 24\<close> is 24.0 for a tiny negative \<open>x\<close>, and \<open>360 - azimuth_deg\<close> is
  360.0 when \<open>cos_gamma\<close> rounds up to 1 and is clamped, at a positive hour angle. In the
  exact model the clamps never change their argument; in the program they do.
\<close>

text \<open>
  C8, as stated, fails for a negative minimum update interval: outside winter mode a call
  whose timestamp is earlier than \<open>last_update_time\<close> by less than the magnitude of the
  interval is committed, and the timestamp moves backwards.
\<close>

theorem negative_interval_counterexample:
  "\<not> isl (update tracked_at_noon (noon_2025_01_15\<lparr>hour := 11\<rparr>) 20 False (- 100))
   \<and> last_update_time tracked_at_noon = Some noon_2025_01_15
   \<and> last_update_time (snd (projr (update tracked_at_noon (noon_2025_01_15\<lparr>hour := 11\<rparr>) 20 False (- 100))))
        = Some (noon_2025_01_15\<lparr>hour := 11\<rparr>)
   \<and> total_seconds_between (noon_2025_01_15\<lparr>hour := 11\<rparr>) noon_2025_01_15 < 0"
proof -
  obtain g where g: "get_target_angles (noon_2025_01_15\<lparr>hour := 11\<rparr>) (latitude tracked_at_noon)
      (longitude tracked_at_noon) (utc_offset tracked_at_noon) = Inr g"
    using get_target_angles_Inr by blast
  have l: "last_update_time tracked_at_noon = Some noon_2025_01_15"
    by (simp add: tracked_at_noon_def)
  have c: "case last_update_time tracked_at_noon of None \<Rightarrow> True
     | Some t \<Rightarrow> \<not> total_seconds_between (noon_2025_01_15\<lparr>hour := 11\<rparr>) t / 60
           < of_int (if (20::real) < 2 \<and> False then 60 else - 100)"
    by (simp add: l one_hour_before_noon)
  show ?thesis using update_commit[OF c g] l by (simp add: one_hour_before_noon)
qed

text \<open>
  C8, amended: for every call of \<open>update\<close> whose effective interval is not negative (60
  in winter mode, the caller's interval otherwise), a tracker with tilt in [0, 90] and
  azimuth in [0, 360) has tilt in [0, 90] and azimuth in [0, 360) after the call, and
  \<open>last_update_time\<close> does not move backwards, whether the call commits or skips.
\<close>

theorem update_preserves_invariant:
  assumes "update s dt temp snow iv = Inr (c, s')"
    and "0 \<le> current_tilt s" and "current_tilt s \<le> 90"
    and "0 \<le> current_azimuth s" and "current_azimuth s < 360"
    and "0 \<le> (if temp < 2 \<and> snow then 60 else iv)"
  shows "0 \<le> current_tilt s' \<and> current_tilt s' \<le> 90
       \<and> 0 \<le> current_azimuth s' \<and> current_azimuth s' < 360
       \<and> (case last_update_time s of None \<Rightarrow> True
          | Some t \<Rightarrow> (case last_update_time s' of None \<Rightarrow> False
                       | Some t' \<Rightarrow> 0 \<le> total_seconds_between t' t))"
proof (cases rule: update_cases[of s dt temp snow iv])
  case (skip t)
  have "total_seconds_between t t = 0" by (simp add: total_seconds_between_def)
  then show ?thesis using assms update_skip[OF skip] skip(1) by auto
next
  case (commit g)
  have b: "0 \<le> py_fmod x 360 \<and> py_fmod x 360 < 360" for x
    using py_fmod_bounds[of 360 x] by simp
  have s': "s' = s\<lparr>is_winter_mode_active := (temp < 2 \<and> snow),
            current_tilt := max 0 (min 90 (if opt_zenith g > 90 then (if temp < 2 \<and> snow then 65 else 0)
                          else if temp < 2 \<and> snow then max (opt_tilt g) 65 else opt_tilt g)),
            current_azimuth := py_fmod (if opt_zenith g > 90 then 180
                          else if temp < 2 \<and> snow then current_azimuth s else opt_azimuth g) 360,
            last_update_time := Some dt\<rparr>"
    using assms(1) update_commit[OF commit] by simp
  have t: "case last_update_time s of None \<Rightarrow> True | Some t \<Rightarrow> 0 \<le> total_seconds_between dt t"
  proof (cases "last_update_time s")
    case None then show ?thesis by simp
  next
    case (Some t)
    then have "\<not> total_seconds_between dt t / 60 < of_int (if temp < 2 \<and> snow then 60 else iv)"
      using commit(1) by simp
    moreover have "(0::real) \<le> of_int (if temp < 2 \<and> snow then 60 else iv)"
      using assms(6) by (simp split: if_splits)
    ultimately have "0 \<le> total_seconds_between dt t / 60" by linarith
    then show ?thesis using Some by simp
  qed
  show ?thesis unfolding s' using t b by (simp split: option.splits)
qed

theorem update_preserves_invariant_witness:
  "\<not> isl (update tracked_at_noon (noon_2025_01_15\<lparr>minute := 30\<rparr>) 20 False 10)
   \<and> 0 \<le> current_tilt (snd (projr (update tracked_at_noon (noon_2025_01_15\<lparr>minute := 30\<rparr>) 20 False 10)))
   \<and> current_tilt (snd (projr (update tracked_at_noon (noon_2025_01_15\<lparr>minute := 30\<rparr>) 20 False 10))) \<le> 90
   \<and> 0 \<le> current_azimuth (snd (projr (update tracked_at_noon (noon_2025_01_15\<lparr>minute := 30\<rparr>) 20 False 10)))
   \<and> current_azimuth (snd (projr (update tracked_at_noon (noon_2025_01_15\<lparr>minute := 30\<rparr>) 20 False 10))) < 360
   \<and> last_update_time (snd (projr (update tracked_at_noon (noon_2025_01_15\<lparr>minute := 30\<rparr>) 20 False 10)))
        = Some (noon_2025_01_15\<lparr>minute := 30\<rparr>)
   \<and> 0 \<le> total_seconds_between (noon_2025_01_15\<lparr>minute := 30\<rparr>) noon_2025_01_15"
proof -
  obtain g where g: "get_target_angles (noon_2025_01_15\<lparr>minute := 30\<rparr>) (latitude tracked_at_noon)
      (longitude tracked_at_noon) (utc_offset tracked_at_noon) = Inr g"
    using get_target_angles_Inr by blast
  have l: "last_update_time tracked_at_noon = Some noon_2025_01_15"
    by (simp add: tracked_at_noon_def)
  have c: "case last_update_time tracked_at_noon of None \<Rightarrow> True
     | Some t \<Rightarrow> \<not> total_seconds_between (noon_2025_01_15\<lparr>minute := 30\<rparr>) t / 60
           < of_int (if (20::real) < 2 \<and> False then 60 else 10)"
    by (simp add: l half_hour_after_noon)
  note u = update_commit[OF c g]
  have i: "0 \<le> current_tilt tracked_at_noon" "current_tilt tracked_at_noon \<le> 90"
    "0 \<le> current_azimuth tracked_at_noon" "current_azimuth tracked_at_noon < 360"
    "0 \<le> (if (20::real) < 2 \<and> False then 60 else (10::int))"
    by (simp_all add: tracked_at_noon_def)
  from update_preserves_invariant[OF u i] u l show ?thesis
    by (simp add: half_hour_after_noon)
qed

text \<open>
  C6, as stated, fails: \<open>simulate_day\<close> validates nothing. With an empty temperature
  list the first tick raises \<open>IndexError\<close> (from \<open>temps[-1]\<close>), and with latitude 91 and
  longitude 181 it returns its records without any error.
\<close>

theorem invalid_input_counterexample:
  "simulate_day noon_2025_01_15 35 (-118) (-8) [] True 30 180 = Inl IndexError
   \<and> \<not> isl (simulate_day noon_2025_01_15 91 181 (-8) [5] True 30 180)"
proof -
  have "\<exists>rs. simulate_day noon_2025_01_15 91 181 (-8) [5] True 30 180 = Inr rs"
    using simulate_loop_Inr[of "[5]" "start_of_day noon_2025_01_15" 91 181 "-8" True 30 180
        tick_minutes "new_tracker 91 181 (-8)" "[]"]
    by (auto simp: simulate_day_def)
  moreover have "simulate_day noon_2025_01_15 35 (-118) (-8) [] True 30 180 = Inl IndexError"
    by (simp add: simulate_day_def tick_minutes_Cons simulate_tick_empty)
  ultimately show ?thesis by auto
qed

text \<open>
  C6, amended: \<open>simulate_day\<close> fails with \<open>IndexError\<close> when the hourly temperature list is
  empty, the error reaching the caller from the first tick; latitude and longitude are
  not checked: with a non-empty temperature list the run returns its 144 records for
  every latitude and longitude.
\<close>

theorem simulate_day_input_errors:
  "simulate_day date_obj lat lon utc [] snow ft fa = Inl IndexError
   \<and> (temps \<noteq> [] \<longrightarrow>
        (\<exists>rs. simulate_day date_obj lat lon utc temps snow ft fa = Inr rs \<and> length rs = 144))"
proof -
  have "simulate_day date_obj lat lon utc [] snow ft fa = Inl IndexError"
    by (simp add: simulate_day_def tick_minutes_Cons simulate_tick_empty)
  moreover have "\<exists>rs. simulate_day date_obj lat lon utc temps snow ft fa = Inr rs \<and> length rs = 144"
    if "temps \<noteq> []"
    using simulate_loop_Inr[OF that, of "start_of_day date_obj" lat lon utc snow ft fa tick_minutes
        "new_tracker lat lon utc" "[]"]
    by (simp add: simulate_day_def length_tick_minutes)
  ultimately show ?thesis by blast
qed

theorem simulate_day_input_errors_witness:
  "[5] \<noteq> ([]::real list)
   \<and> \<not> isl (simulate_day noon_2025_01_15 200 500 0 [5] False 30 180)
   \<and> length (projr (simulate_day noon_2025_01_15 200 500 0 [5] False 30 180)) = 144"
  using simulate_day_input_errors[of noon_2025_01_15 200 500 0 False 30 180 "[5]"]
  by auto

text \<open>
  C9, as stated, fails in winter mode. On 2025-06-21 at latitude 30, longitude -90, UTC
  offset -6, with -5 degrees all day and snow detected, the sun rises (some record has a
  zenith below 90), the tracker is stowed at midnight and then held at azimuth 180 and a
  tilt of at least 65 degrees, and the fixed mount at the default 30 and 180 degrees
  collects strictly more energy than the dual-axis tracker.
\<close>

theorem winter_day_counterexample:
  "\<not> isl (simulate_day noon_2025_06_21 30 (-90) (-6) cold_day_temps True
            default_fixed_tilt default_fixed_azimuth)
   \<and> Min (set (map Zenith (projr (simulate_day noon_2025_06_21 30 (-90) (-6) cold_day_temps True
            default_fixed_tilt default_fixed_azimuth)))) < 90
   \<and> energy_kwh (map Power_Dual (projr (simulate_day noon_2025_06_21 30 (-90) (-6)
            cold_day_temps True default_fixed_tilt default_fixed_azimuth)))
     < energy_kwh (map Power_Fixed (projr (simulate_day noon_2025_06_21 30 (-90) (-6)
            cold_day_temps True default_fixed_tilt default_fixed_azimuth)))"
proof -
  obtain rs where rs: "simulate_day noon_2025_06_21 30 (-90) (-6) cold_day_temps True 30 180 = Inr rs"
    and le: "\<forall>r\<in>set rs. Power_Dual r \<le> Power_Fixed r"
    and lt: "\<exists>r\<in>set rs. Power_Dual r < Power_Fixed r \<and> Zenith r < 90"
    using winter_day_run by blast
  have "sum_list (map Power_Dual rs) < sum_list (map Power_Fixed rs)"
    using le lt by (intro sum_list_strict_mono) auto
  then have e: "energy_kwh (map Power_Dual rs) < energy_kwh (map Power_Fixed rs)"
    by (simp add: energy_kwh_def)
  obtain r where r: "r \<in> set rs" "Zenith r < 90" using lt by blast
  have "Min (set (map Zenith rs)) \<le> Zenith r" using r(1) by (intro Min_le) simp_all
  then have m: "Min (set (map Zenith rs)) < 90" using r(2) by linarith
  show ?thesis
    using rs e m by (simp add: default_fixed_tilt_def default_fixed_azimuth_def)
qed

text \<open>
  C9, amended: for every \<open>simulate_day\<close> run with a non-empty temperature list in which
  winter mode is never active (no snow detected, or every hourly temperature at least
  2.0), the dual-axis daily energy, the sum of power over the records times
  (10/60)/1000 kWh, is greater than or equal to the fixed-mount daily energy.
\<close>

theorem dual_at_least_fixed_without_winter:
  assumes "temps \<noteq> []" and "snow \<longrightarrow> (\<forall>t\<in>set temps. 2 \<le> t)"
  shows "\<exists>rs. simulate_day date_obj lat lon utc temps snow ft fa = Inr rs
           \<and> energy_kwh (map Power_Fixed rs) \<le> energy_kwh (map Power_Dual rs)"
proof -
  obtain rs where rs: "simulate_loop (start_of_day date_obj) lat lon utc temps snow ft fa
        tick_minutes (new_tracker lat lon utc) [] = Inr ([] @ rs)"
    and p: "\<forall>r\<in>set rs. Power_Fixed r \<le> Power_Dual r"
    using tracking_loop[OF assms tick_minutes_spaced, of "new_tracker lat lon utc" lat lon utc
        "start_of_day date_obj" ft fa "[]"]
    by (auto simp: new_tracker_def)
  have "sum_list (map Power_Fixed rs) \<le> sum_list (map Power_Dual rs)"
    using p by (intro sum_list_mono) simp
  then have "energy_kwh (map Power_Fixed rs) \<le> energy_kwh (map Power_Dual rs)"
    by (simp add: energy_kwh_def)
  then show ?thesis using rs by (simp add: simulate_day_def)
qed

theorem dual_at_least_fixed_without_winter_witness:
  "[20] \<noteq> ([]::real list) \<and> (2::real) \<le> 20
   \<and> \<not> isl (simulate_day noon_2025_06_21 30 (-90) (-6) [20] True default_fixed_tilt default_fixed_azimuth)
   \<and> energy_kwh (map Power_Fixed (projr (simulate_day noon_2025_06_21 30 (-90) (-6) [20] True
         default_fixed_tilt default_fixed_azimuth)))
     \<le> energy_kwh (map Power_Dual (projr (simulate_day noon_2025_06_21 30 (-90) (-6) [20] True
         default_fixed_tilt default_fixed_azimuth)))"
proof -
  have a: "[20] \<noteq> ([]::real list)" by simp
  have b: "True \<longrightarrow> (\<forall>t\<in>set [20::real]. 2 \<le> t)" by simp
  from dual_at_least_fixed_without_winter[OF a b, of noon_2025_06_21 30 "-90" "-6"
      default_fixed_tilt default_fixed_azimuth]
  show ?thesis using a b by auto
qed

end
